theory Spec2Isabelle
  imports Complex_Main "HOL-Library.List_Lexorder" "HOL-Library.Char_ord"
begin

section \<open>Errors\<close>

text \<open>
  The exceptions that the modelled parts of \<^verbatim>\<open>train_ee.py\<close> can raise. Nothing in the
  program catches an exception, so every one of them ends the run; a function that can
  raise returns \<open>error + 'a\<close>, with \<open>Inl\<close> for the exception.
\<close>

datatype error =
  ZeroDivisionError
  | IndexError
  | AttributeError
  | ValueError
  | KeyError
  | TypeError
  | OSError
  | UnpicklingError
  | RuntimeError

section \<open>AverageMeter\<close>

text \<open>
  \<^verbatim>\<open>
  class AverageMeter(object):
      def __init__(self):
          self.reset()
      def reset(self):
          self.val = 0
          self.avg = 0
          self.sum = 0
          self.count = 0
      def update(self, val, n=1):
          self.val = val
          self.sum += val * n
          self.count += n
          self.avg = self.sum / self.count
  \<close>
  The field \<^verbatim>\<open>sum\<close> is written \<open>sum'\<close>. Python numbers are modelled as real
  numbers: the rounding of floating-point arithmetic is left out. The division raises
  when the new count is zero; the three assignments before it have then happened, but
  the exception ends the run and the meter is never looked at again, so the model
  returns the exception alone.
\<close>

record AverageMeter =
  val :: real
  avg :: real
  sum' :: real
  count :: real

definition reset :: "AverageMeter" where
  "reset = \<lparr>val = 0, avg = 0, sum' = 0, count = 0\<rparr>"

definition update :: "AverageMeter \<Rightarrow> real \<Rightarrow> real \<Rightarrow> error + AverageMeter" where
  "update m v n =
     (let s = sum' m + v * n;
          c = count m + n
      in if c = 0 then Inl ZeroDivisionError
         else Inr \<lparr>val = v, avg = s / c, sum' = s, count = c\<rparr>)"

text \<open>A sequence of \<^verbatim>\<open>update(value, weight)\<close> calls; the first exception ends it.\<close>

fun updates :: "AverageMeter \<Rightarrow> (real \<times> real) list \<Rightarrow> error + AverageMeter" where
  "updates m [] = Inr m"
| "updates m ((v, n) # xs) =
     (case update m v n of Inl e \<Rightarrow> Inl e | Inr m' \<Rightarrow> updates m' xs)"

text \<open>The weighted sum and the total weight of a sequence of (value, weight) pairs.\<close>

definition weighted_sum :: "(real \<times> real) list \<Rightarrow> real" where
  "weighted_sum xs = sum_list (map (\<lambda>(v, n). v * n) xs)"

definition total_weight :: "(real \<times> real) list \<Rightarrow> real" where
  "total_weight xs = sum_list (map snd xs)"

definition positive_weights :: "(real \<times> real) list \<Rightarrow> bool" where
  "positive_weights xs = list_all (\<lambda>(v, n). 0 < n) xs"

section \<open>Strings\<close>

text \<open>
  A character is a code point below 256; a string with other code points is outside the
  model.

  \<^verbatim>\<open>str(n)\<close> and the \<^verbatim>\<open>{}\<close> format of an integer: its decimal digits, with a minus sign
  for a negative one.
\<close>

definition digit_char :: "nat \<Rightarrow> char" where
  "digit_char d = ''0123456789'' ! d"

fun str_nat :: "nat \<Rightarrow> string" where
  "str_nat n =
     (if n < 10 then [digit_char n] else str_nat (n div 10) @ [digit_char (n mod 10)])"

declare str_nat.simps [simp del]

definition str_int :: "int \<Rightarrow> string" where
  "str_int i = (if i < 0 then CHR ''-'' # str_nat (nat (- i)) else str_nat (nat i))"

text \<open>\<^verbatim>\<open>s.split(c)\<close> for a one-character separator: never an empty list.\<close>

fun split_on :: "char \<Rightarrow> string \<Rightarrow> string list" where
  "split_on c [] = [[]]"
| "split_on c (x # xs) =
     (if x = c then [] # split_on c xs
      else (case split_on c xs of
              [] \<Rightarrow> [[x]]
            | y # ys \<Rightarrow> (x # y) # ys))"

text \<open>
  \<^verbatim>\<open>int(s)\<close> on a string. The conversion first replaces the white space above the ASCII
  range (below 256: the next-line character \<open>0x85\<close> and the no-break space \<open>0xA0\<close>) by
  blanks; then it skips the white space of C around the number (blank, tab, line feed,
  vertical tab, form feed, carriage return), takes one sign, and reads decimal digits
  that single underscores may group. The separators \<open>0x1C\<close> to \<open>0x1F\<close>, which
  \<^verbatim>\<open>str.strip\<close> drops, are not skipped. Anything else raises ValueError, and so do more
  than 4300 digits (the interpreter's default limit).
\<close>

definition is_space :: "char \<Rightarrow> bool" where
  "is_space c = (c \<in> set [CHR '' '', CHR 0x09, CHR 0x0A, CHR 0x0B, CHR 0x0C, CHR 0x0D,
                           CHR 0x85, CHR 0xA0])"

definition strip :: "string \<Rightarrow> string" where
  "strip s = rev (dropWhile is_space (rev (dropWhile is_space s)))"

definition is_digit :: "char \<Rightarrow> bool" where
  "is_digit c = (c \<in> set ''0123456789'')"

definition digit_val :: "char \<Rightarrow> nat" where
  "digit_val c = of_char c - 48"

definition nat_of_digits :: "string \<Rightarrow> nat" where
  "nat_of_digits s = foldl (\<lambda>a c. 10 * a + digit_val c) 0 s"

definition py_int :: "string \<Rightarrow> error + int" where
  "py_int s =
     (let t = strip s;
          neg = (t \<noteq> [] \<and> hd t = CHR ''-'');
          u = (if t \<noteq> [] \<and> (hd t = CHR ''-'' \<or> hd t = CHR ''+'') then tl t else t);
          gs = split_on (CHR ''_'') u
      in if list_all (\<lambda>g. g \<noteq> [] \<and> list_all is_digit g) gs \<and> length (concat gs) \<le> 4300
         then Inr ((if neg then - 1 else 1) * int (nat_of_digits (concat gs)))
         else Inl ValueError)"

text \<open>\<^verbatim>\<open>os.path.basename\<close>: what follows the last slash.\<close>

definition basename :: "string \<Rightarrow> string" where
  "basename p = rev (takeWhile (\<lambda>c. c \<noteq> CHR ''/'') (rev p))"

text \<open>
  \<^verbatim>\<open>os.path.dirname\<close>: what comes before the last slash, without its trailing slashes
  unless it consists of slashes only. \<^verbatim>\<open>os.path.join\<close> of a directory and a name puts a
  slash between them unless the directory is empty or ends in one.
\<close>

definition dirname :: "string \<Rightarrow> string" where
  "dirname p =
     (let h = take (length p - length (basename p)) p
      in if h \<noteq> [] \<and> \<not> list_all (\<lambda>c. c = CHR ''/'') h
         then rev (dropWhile (\<lambda>c. c = CHR ''/'') (rev h)) else h)"

definition path_join :: "string \<Rightarrow> string \<Rightarrow> string" where
  "path_join d n = (if d \<noteq> [] \<and> last d \<noteq> CHR ''/'' then d @ ''/'' @ n else d @ n)"

text \<open>Python indexing of a list: a negative index counts from the end.\<close>

definition py_index :: "'a list \<Rightarrow> int \<Rightarrow> error + 'a" where
  "py_index xs i =
     (if 0 \<le> i \<and> i < int (length xs) then Inr (xs ! nat i)
      else if i < 0 \<and> - int (length xs) \<le> i then Inr (xs ! nat (int (length xs) + i))
      else Inl IndexError)"

section \<open>MData\<close>

text \<open>
  \<^verbatim>\<open>
  class MData(Dataset):
      def __init__(self, dataset, mode, channel, seed):
          super().__init__()
          (docstring: Adjusted to the dataset in use.)
          self.data = []
          self.label = []
      def __len__(self):
          return len(self.label)
      def __getitem__(self, idx):
          signal = self.data[idx]
          label = self.label[idx]
          if self.transformations is not None:
              signal = self.transformations(signal)
          return signal, label
  \<close>
  The attribute \<^verbatim>\<open>transformations\<close> is \<open>None\<close> while it has never been assigned,
  \<open>Some None\<close> when it holds Python's \<^verbatim>\<open>None\<close>, and \<open>Some (Some f)\<close> when it holds a
  callable. A callable may be random (an augmentation): \<open>f r signal\<close> is what it returns
  when its random source yields \<open>r\<close>, and item access takes the \<open>r\<close> of this call as an
  argument. The constructor as written assigns two empty lists; its docstring leaves
  the loading of a concrete dataset to whoever adjusts it, so the constructor takes
  that adjustment as an argument: \<open>unadjusted\<close> is the constructor exactly as written.
\<close>

record 'x MData =
  data :: "'x list"
  label :: "int list"
  transformations :: "(nat \<Rightarrow> 'x \<Rightarrow> 'x) option option"

type_synonym 'x adjustment = "string \<Rightarrow> string \<Rightarrow> string \<Rightarrow> int \<Rightarrow> 'x MData \<Rightarrow> 'x MData"

definition MData_init ::
  "'x adjustment \<Rightarrow> string \<Rightarrow> string \<Rightarrow> string \<Rightarrow> int \<Rightarrow> 'x MData" where
  "MData_init adjust dataset mode channel seed =
     adjust dataset mode channel seed \<lparr>data = [], label = [], transformations = None\<rparr>"

definition unadjusted :: "'x adjustment" where
  "unadjusted dataset mode channel seed d = d"

definition MData_len :: "'x MData \<Rightarrow> nat" where
  "MData_len d = length (label d)"

definition MData_getitem :: "'x MData \<Rightarrow> nat \<Rightarrow> int \<Rightarrow> error + ('x \<times> int)" where
  "MData_getitem d r idx =
     (case py_index (data d) idx of
        Inl e \<Rightarrow> Inl e
      | Inr signal \<Rightarrow>
          (case py_index (label d) idx of
             Inl e \<Rightarrow> Inl e
           | Inr lab \<Rightarrow>
               (case transformations d of
                  None \<Rightarrow> Inl AttributeError
                | Some None \<Rightarrow> Inr (signal, lab)
                | Some (Some f) \<Rightarrow> Inr (f r signal, lab))))"

section \<open>The world outside the process\<close>

text \<open>
  An entry of the file system is a directory or a file. A checkpoint file holds a
  pickled dictionary; \<^verbatim>\<open>train\<close> writes \<^verbatim>\<open>{'model': state_dict, 'epoch': epoch}\<close>. A
  file that \<^verbatim>\<open>torch.load\<close> cannot read as a dictionary (a log file, for one) is
  \<open>Other\<close>.
\<close>

datatype 'p pyval = State_dict 'p | Py_int int

datatype 'p contents = Directory | Pickled "(string \<times> 'p pyval) list" | Other

text \<open>
  The messages the program logs. Their texts carry a time stamp and formatted floating
  point numbers; the model keeps the values that are formatted.
  \<^item> \<open>Using_args\<close>: \<^verbatim>\<open>'Using args :{}'\<close> of \<^verbatim>\<open>init_path\<close>;
  \<^item> \<open>Load file epoch\<close>: \<^verbatim>\<open>'Load {} - Epoch:{}'\<close> of \<^verbatim>\<open>get_model\<close>;
  \<^item> \<open>Weight_mode\<close>: \<^verbatim>\<open>'weight:{} mode:{}'\<close> at the start of \<^verbatim>\<open>train\<close>;
  \<^item> \<open>Epoch_info epoch train_loss train_acc valid_acc valid_loss test_acc test_loss\<close>:
    the line \<^verbatim>\<open>train\<close> logs at the end of an epoch.

  A logged line is the log file it goes to, the logger's name and the message.
\<close>

datatype log_msg =
  Using_args
  | Load string int
  | Weight_mode
  | Epoch_info int real real real real real real

type_synonym log_line = "string \<times> string \<times> log_msg"

text \<open>
  The world: the entries of the file system (\<open>files\<close>) in the order in which a
  directory listing enumerates them (no order is promised by the operating system),
  and the lines logged so far. \<open>history\<close> records the entries after every \<^verbatim>\<open>os.remove\<close>
  and every \<^verbatim>\<open>torch.save\<close>, the latest first: the states the checkpoint files pass
  through. \<open>calls\<close> records the auxiliary target of every call of the composite
  criterion, in the order of the calls. Paths are compared as strings: the world names
  an entry by the spelling under which the program reaches it.
\<close>

record 'p world =
  files :: "(string \<times> 'p contents) list"
  log :: "log_line list"
  history :: "(string \<times> 'p contents) list list"
  calls :: "int list option list"

definition exists :: "string \<Rightarrow> 'p world \<Rightarrow> bool" where
  "exists p w = (p \<in> set (map fst (files w)))"

definition is_dir :: "string \<Rightarrow> 'p world \<Rightarrow> bool" where
  "is_dir p w = (map_of (files w) p = Some Directory)"

text \<open>
  The directory part of a path names a directory in which an entry can be made: the
  empty one is the working directory.
\<close>

definition parent_exists :: "string \<Rightarrow> 'p world \<Rightarrow> bool" where
  "parent_exists p w = (dirname p = [] \<or> is_dir (dirname p) w)"

text \<open>
  \<^verbatim>\<open>os.mkdir\<close> raises when the path is empty or exists, or its parent directory does
  not.
\<close>

definition mkdir :: "string \<Rightarrow> 'p world \<Rightarrow> error + 'p world" where
  "mkdir p w =
     (if p = [] \<or> exists p w then Inl OSError
      else if \<not> parent_exists p w then Inl OSError
      else Inr (w\<lparr>files := files w @ [(p, Directory)]\<rparr>))"

text \<open>\<^verbatim>\<open>os.remove\<close> raises when there is no such entry, and when it is a directory.\<close>

definition remove :: "string \<Rightarrow> 'p world \<Rightarrow> error + 'p world" where
  "remove p w =
     (case map_of (files w) p of
        None \<Rightarrow> Inl OSError
      | Some Directory \<Rightarrow> Inl OSError
      | Some c \<Rightarrow>
          (let fs = filter (\<lambda>kv. fst kv \<noteq> p) (files w)
           in Inr (w\<lparr>files := fs, history := fs # history w\<rparr>)))"

text \<open>
  \<^verbatim>\<open>torch.save(obj, path)\<close> creates the file or replaces its contents. It raises when
  the path is a directory, and when the file is new and its parent directory does not
  exist. A full disk and a refused permission are not modelled.
\<close>

definition save ::
  "(string \<times> 'p pyval) list \<Rightarrow> string \<Rightarrow> 'p world \<Rightarrow> error + 'p world" where
  "save obj p w =
     (case map_of (files w) p of
        Some Directory \<Rightarrow> Inl OSError
      | Some c \<Rightarrow>
          (let fs = map (\<lambda>kv. if fst kv = p then (p, Pickled obj) else kv) (files w)
           in Inr (w\<lparr>files := fs, history := fs # history w\<rparr>))
      | None \<Rightarrow>
          if p = [] \<or> \<not> parent_exists p w then Inl RuntimeError
          else (let fs = files w @ [(p, Pickled obj)]
                in Inr (w\<lparr>files := fs, history := fs # history w\<rparr>)))"

definition torch_load :: "string \<Rightarrow> 'p world \<Rightarrow> error + (string \<times> 'p pyval) list" where
  "torch_load p w =
     (case map_of (files w) p of
        None \<Rightarrow> Inl OSError
      | Some Directory \<Rightarrow> Inl OSError
      | Some Other \<Rightarrow> Inl UnpicklingError
      | Some (Pickled d) \<Rightarrow> Inr d)"

text \<open>
  The entries of a directory \<open>d\<close> that match \<^verbatim>\<open>*.pt\<close>, each joined to \<open>d\<close>, in the order of
  the directory listing: files and directories alike, whose names end in \<^verbatim>\<open>.pt\<close> and do
  not begin with a dot. Nothing is listed when \<open>d\<close> is not a directory.
\<close>

definition ends_with :: "string \<Rightarrow> string \<Rightarrow> bool" where
  "ends_with s n = (length s \<le> length n \<and> drop (length n - length s) n = s)"

definition fnmatch_pt :: "string \<Rightarrow> bool" where
  "fnmatch_pt n = (ends_with ''.pt'' n \<and> hd n \<noteq> CHR ''.'')"

definition in_dir :: "string \<Rightarrow> string \<Rightarrow> bool" where
  "in_dir d f =
     (let k = length (path_join d []);
          n = drop k f
      in take k f = path_join d [] \<and> n \<noteq> [] \<and> CHR ''/'' \<notin> set n)"

definition is_checkpoint :: "string \<Rightarrow> string \<Rightarrow> bool" where
  "is_checkpoint d f = (in_dir d f \<and> fnmatch_pt (drop (length (path_join d [])) f))"

definition glob_in :: "string \<Rightarrow> 'p world \<Rightarrow> string list" where
  "glob_in d w = (if is_dir d w then filter (is_checkpoint d) (map fst (files w)) else [])"

text \<open>The characters that make \<^verbatim>\<open>glob\<close> read a name as a pattern.\<close>

definition has_magic :: "string \<Rightarrow> bool" where
  "has_magic s = list_ex (\<lambda>c. c \<in> set ''*?['') s"

section \<open>Logging\<close>

text \<open>
  \<^verbatim>\<open>
  def get_logger(path, name):
      logger = logging.getLogger(name)
      ...
      file_handler = logging.FileHandler(filename=path)
      ...
      logger.addHandler(stream_handler)
      logger.addHandler(file_handler)
      return logger
  \<close>
  A logger is its name and the file its file handler appends to. Opening that file
  creates it when it is not there, and raises when its directory does not exist or the
  path is a directory. The console handler shows the same lines and is left out, and
  so is the registry of loggers by name: the entry point asks for each name once.
\<close>

record logger =
  logger_name :: string
  log_path :: string

definition get_logger :: "string \<Rightarrow> string \<Rightarrow> 'p world \<Rightarrow> (error + logger) \<times> 'p world" where
  "get_logger path nm w =
     (if path = [] \<or> \<not> parent_exists path w \<or> is_dir path w then (Inl OSError, w)
      else (Inr \<lparr>logger_name = nm, log_path = path\<rparr>,
            if exists path w then w else w\<lparr>files := files w @ [(path, Other)]\<rparr>))"

definition logger_info :: "logger \<Rightarrow> log_msg \<Rightarrow> 'p world \<Rightarrow> 'p world" where
  "logger_info lg msg w = w\<lparr>log := log w @ [(log_path lg, logger_name lg, msg)]\<rparr>"

section \<open>The command line\<close>

text \<open>
  The parsed arguments of the entry point. The field \<^verbatim>\<open>end\<close> is written \<open>end'\<close>.
\<close>

record args =
  resume :: bool
  lr :: real
  batch_size :: int
  epoch :: int
  dataset :: string
  device_id :: int
  name :: string
  weight :: "real list"
  start :: int
  end' :: int
  trans :: bool
  loss :: string
  loss_weight :: string

section \<open>Tensors\<close>

text \<open>
  A signal is an array of channels, each a sequence of samples. The logits of a batch
  are a tensor of two dimensions: \<open>rows\<close>, one row of class scores per example, each of
  \<open>ncols\<close> scores. A value whose rows have another length than \<open>ncols\<close> stands for no
  tensor, and the operations raise on it.
\<close>

type_synonym signal = "real list list"

record tensor =
  ncols :: nat
  rows :: "real list list"

definition well_formed :: "tensor \<Rightarrow> bool" where
  "well_formed c = list_all (\<lambda>r. length r = ncols c) (rows c)"

text \<open>
  The size of a dimension when two tensors are combined element by element: sizes agree
  when they are equal or one of them is 1, and the dimension of size 1 is stretched.
\<close>

definition broadcast :: "nat \<Rightarrow> nat \<Rightarrow> nat option" where
  "broadcast m n = (if m = n then Some m else if m = 1 then Some n else if n = 1 then Some m
                    else None)"

text \<open>\<^verbatim>\<open>c1 + c2\<close>: the sum element by element, of the broadcast shape.\<close>

definition tensor_add :: "tensor \<Rightarrow> tensor \<Rightarrow> error + tensor" where
  "tensor_add c1 c2 =
     (if \<not> well_formed c1 \<or> \<not> well_formed c2 then Inl RuntimeError
      else case broadcast (length (rows c1)) (length (rows c2)) of
             None \<Rightarrow> Inl RuntimeError
           | Some m \<Rightarrow>
               (case broadcast (ncols c1) (ncols c2) of
                  None \<Rightarrow> Inl RuntimeError
                | Some n \<Rightarrow>
                    (let r1 = (\<lambda>i. rows c1 ! (if length (rows c1) = 1 then 0 else i));
                         r2 = (\<lambda>i. rows c2 ! (if length (rows c2) = 1 then 0 else i));
                         k1 = (\<lambda>j. if ncols c1 = 1 then 0 else j);
                         k2 = (\<lambda>j. if ncols c2 = 1 then 0 else j)
                     in Inr \<lparr>ncols = n,
                             rows = map (\<lambda>i. map (\<lambda>j. r1 i ! k1 j + r2 i ! k2 j) [0 ..< n])
                                      [0 ..< m]\<rparr>)))"

text \<open>
  \<^verbatim>\<open>torch.max(x, 1)[1]\<close>: for every row the index of its greatest score, the first one
  when several scores are the greatest; it raises when the rows have no scores.
\<close>

fun max_index :: "real list \<Rightarrow> nat" where
  "max_index [] = 0"
| "max_index [x] = 0"
| "max_index (x # y # ys) =
     (let j = max_index (y # ys) in if x < (y # ys) ! j then Suc j else 0)"

definition argmax_rows :: "tensor \<Rightarrow> error + nat list" where
  "argmax_rows c =
     (if \<not> well_formed c \<or> ncols c = 0 then Inl RuntimeError
      else Inr (map max_index (rows c)))"

text \<open>
  \<^verbatim>\<open>torch.sum(pred == target)\<close>: the number of positions at which prediction and label
  agree. The comparison broadcasts: with one prediction or one label, that one is
  compared with every entry of the other; other different lengths raise.
\<close>

definition count_equal :: "nat list \<Rightarrow> int list \<Rightarrow> error + nat" where
  "count_equal pred target =
     (case broadcast (length pred) (length target) of
        None \<Rightarrow> Inl RuntimeError
      | Some n \<Rightarrow>
          Inr (length (filter
                 (\<lambda>i. int (pred ! (if length pred = 1 then 0 else i))
                        = target ! (if length target = 1 then 0 else i))
                 [0 ..< n])))"

section \<open>The framework and the modules outside this file\<close>

text \<open>
  The network (\<^verbatim>\<open>net.py\<close>), the composite loss (\<^verbatim>\<open>loss.py\<close>) and parts of the framework
  and of the standard library are not part of this file; the functions of this file
  take them as a record of functions.
  \<^item> \<open>forward p training eog eeg\<close>: \<^verbatim>\<open>model(data_eog, data_eeg)\<close> on the state \<open>p\<close> of the
    network (its parameters and buffers), in training or in evaluation mode: the
    logits \<open>c1\<close>, \<open>c2\<close> and the auxiliary outputs \<open>o1\<close>, \<open>o2\<close>, with the state in which the
    call leaves the network; or an exception;
  \<^item> \<open>CrossEntropyLoss\<close>: \<^verbatim>\<open>torch.nn.CrossEntropyLoss()\<close> applied to logits and labels;
  \<^item> \<open>MutiLoss mode weight loss_weight\<close>: the composite criterion; its last argument
    is the auxiliary target, \<open>None\<close> for Python's \<^verbatim>\<open>None\<close>;
  \<^item> \<open>Adam p\<close>: the state of a new optimizer over the parameters;
  \<^item> \<open>step p s eog eeg label tar\<close>: what \<^verbatim>\<open>optimizer.zero_grad()\<close>, \<^verbatim>\<open>loss.backward()\<close>
    and \<^verbatim>\<open>optimizer.step()\<close> make of the state of the network and of the optimizer on
    one batch;
  \<^item> \<open>fits p\<close>: whether the keys and shapes of the state \<open>p\<close> are those of the network, as
    \<^verbatim>\<open>load_state_dict\<close> demands;
  \<^item> \<open>format_4f x\<close>: the text \<^verbatim>\<open>'{:.4f}'.format(x)\<close> for the floating-point number that
    stores \<open>x\<close>;
  \<^item> \<open>glob_dirs pattern names\<close>: the directories that \<^verbatim>\<open>glob\<close> finds for a directory name
    with pattern characters, among the entries \<open>names\<close>.
\<close>

type_synonym 'o criterion =
  "tensor \<Rightarrow> int list \<Rightarrow> tensor \<Rightarrow> int list \<Rightarrow> 'o \<Rightarrow> 'o \<Rightarrow> int list option \<Rightarrow> error + real"

record ('p, 'o, 'a) framework =
  forward :: "'p \<Rightarrow> bool \<Rightarrow> real list list \<Rightarrow> real list list
                \<Rightarrow> error + ((tensor \<times> tensor \<times> 'o \<times> 'o) \<times> 'p)"
  CrossEntropyLoss :: "tensor \<Rightarrow> int list \<Rightarrow> error + real"
  MutiLoss :: "string \<Rightarrow> real list \<Rightarrow> string \<Rightarrow> 'o criterion"
  Adam :: "'p \<Rightarrow> 'a"
  step :: "'p \<Rightarrow> 'a \<Rightarrow> real list list \<Rightarrow> real list list \<Rightarrow> int list \<Rightarrow> int list option
             \<Rightarrow> 'p \<times> 'a"
  fits :: "'p \<Rightarrow> bool"
  format_4f :: "real \<Rightarrow> string"
  glob_dirs :: "string \<Rightarrow> string list \<Rightarrow> string list"

section \<open>The model and its checkpoint\<close>

text \<open>
  \<^verbatim>\<open>glob('{}/*.pt'.format(pth))\<close>. The pattern is split at its last slash into the
  directory name and \<^verbatim>\<open>*.pt\<close>. A directory name without pattern characters is taken as
  it is; for one with pattern characters the matching directories are the framework
  record's, and their listings follow one another.
\<close>

definition glob_pt :: "('p, 'o, 'a) framework \<Rightarrow> string \<Rightarrow> 'p world \<Rightarrow> string list" where
  "glob_pt ext pth w =
     (let d = dirname (pth @ ''/*.pt'')
      in if has_magic d
         then concat (map (\<lambda>d'. glob_in d' w) (glob_dirs ext d (map fst (files w))))
         else glob_in d w)"

text \<open>
  The network is defined in \<^verbatim>\<open>net.py\<close>, outside this file: its state is a value of a
  type \<open>'p\<close>, and the model object is that state with the flag that \<^verbatim>\<open>model.train()\<close>
  sets and \<^verbatim>\<open>model.eval()\<close> clears (set in a new module). \<^verbatim>\<open>load_state_dict\<close> raises
  for a state that does not fit the network, and for a value that is no state.
\<close>

record 'p model =
  params :: 'p
  training :: bool

definition load_state_dict ::
  "('p, 'o, 'a) framework \<Rightarrow> 'p model \<Rightarrow> 'p pyval \<Rightarrow> error + 'p model" where
  "load_state_dict ext m v =
     (case v of
        State_dict p \<Rightarrow> if fits ext p then Inr (m\<lparr>params := p\<rparr>) else Inl RuntimeError
      | Py_int i \<Rightarrow> Inl TypeError)"

text \<open>
  \<^verbatim>\<open>
  def get_model(args, pth):
      start_epoch = 0
      model = MODEL().to(device)
      files = glob('{}/*.pt'.format(pth))
      if args.resume and files:
          file = files[-1]
          epoch = int(os.path.basename(file).split('-')[0]) + 1
          start_epoch = epoch
          logger.info('Load {} - Epoch:{}'.format(file, epoch - 1))
          model.load_state_dict(torch.load(file)['model'])
      return model, start_epoch
  \<close>
  \<open>fresh\<close> is the state that \<^verbatim>\<open>MODEL()\<close> draws, and \<open>lg\<close> the global \<^verbatim>\<open>logger\<close>. The
  result is the returned pair or the exception, and the world, which has the logged
  line also when the loading after it raises.
\<close>

definition get_model ::
  "('p, 'o, 'a) framework \<Rightarrow> 'p \<Rightarrow> logger \<Rightarrow> args \<Rightarrow> string \<Rightarrow> 'p world
     \<Rightarrow> (error + ('p model \<times> int)) \<times> 'p world" where
  "get_model ext fresh lg a pth w =
     (let model = \<lparr>params = fresh, training = True\<rparr>;
          fs = glob_pt ext pth w
      in if resume a \<and> fs \<noteq> [] then
           (let file' = last fs
            in case split_on (CHR ''-'') (basename file') of
                 [] \<Rightarrow> (Inl IndexError, w)
               | pre # rest \<Rightarrow>
                   (case py_int pre of
                      Inl e \<Rightarrow> (Inl e, w)
                    | Inr n \<Rightarrow>
                        (let ep = n + 1;
                             w' = logger_info lg (Load file' (ep - 1)) w
                         in case torch_load file' w' of
                              Inl e \<Rightarrow> (Inl e, w')
                            | Inr d \<Rightarrow>
                                (case map_of d ''model'' of
                                   None \<Rightarrow> (Inl KeyError, w')
                                 | Some v \<Rightarrow>
                                     (case load_state_dict ext model v of
                                        Inl e \<Rightarrow> (Inl e, w')
                                      | Inr m \<Rightarrow> (Inr (m, ep), w'))))))
         else (Inr (model, 0), w))"

section \<open>DataLoader\<close>

text \<open>
  \<^verbatim>\<open>DataLoader(dataset, batch_size=..., shuffle=...)\<close> of the framework. Its constructor
  raises ValueError for a batch size that is not positive, and for \<^verbatim>\<open>shuffle=True\<close> on
  a dataset of length zero (its random sampler refuses it). The fields are written
  \<open>source\<close> (the attribute \<^verbatim>\<open>dataset\<close>) and \<open>bsize\<close> (the batch size).
\<close>

record 'x loader =
  source :: "'x MData"
  bsize :: nat
  shuffle :: bool

definition DataLoader :: "'x MData \<Rightarrow> int \<Rightarrow> bool \<Rightarrow> error + 'x loader" where
  "DataLoader d bs sh =
     (if bs \<le> 0 then Inl ValueError
      else if sh \<and> MData_len d = 0 then Inl ValueError
      else Inr \<lparr>source = d, bsize = nat bs, shuffle = sh\<rparr>)"

text \<open>Consecutive groups of \<open>n\<close> elements; the last group may be shorter.\<close>

function chunks :: "nat \<Rightarrow> 'a list \<Rightarrow> 'a list list" where
  "chunks n xs = (if n = 0 \<or> xs = [] then [] else take n xs # chunks n (drop n xs))"
  by pat_completeness auto
termination
  by (relation "measure (\<lambda>(n, xs). length xs)") auto

declare chunks.simps [simp del]

text \<open>
  What is random in one pass over a loader: \<open>sampler\<close>, the order that the random
  sampler of a shuffling loader draws for this pass (a new one for every pass), and
  \<open>entropy\<close>, what the random source of the transformations yields when the item of an
  index is fetched in this pass.
\<close>

record pass =
  sampler :: "nat list \<Rightarrow> nat list"
  entropy :: "nat \<Rightarrow> nat"

text \<open>
  One pass visits the indices \<open>0, \<dots>, len - 1\<close> in groups of the batch size: in this
  order without shuffling, and with shuffling in the order of the sampler.
\<close>

definition index_batches :: "(nat list \<Rightarrow> nat list) \<Rightarrow> 'x loader \<Rightarrow> nat list list" where
  "index_batches ord l =
     (let idx = [0 ..< MData_len (source l)]
      in chunks (bsize l) (if shuffle l then ord idx else idx))"

text \<open>
  A batch is fetched when the loop reaches it: the items of its indices, through
  \<^verbatim>\<open>__getitem__\<close>, collated into the signals and the labels. Signals are stacked into
  one tensor, which raises unless they all have the shape of the first.
\<close>

fun fetch :: "'x MData \<Rightarrow> (nat \<Rightarrow> nat) \<Rightarrow> nat list \<Rightarrow> error + ('x \<times> int) list" where
  "fetch d rnd [] = Inr []"
| "fetch d rnd (i # is) =
     (case MData_getitem d (rnd i) (int i) of
        Inl e \<Rightarrow> Inl e
      | Inr x \<Rightarrow> (case fetch d rnd is of Inl e \<Rightarrow> Inl e | Inr xs \<Rightarrow> Inr (x # xs)))"

definition collate :: "(signal \<times> int) list \<Rightarrow> error + (signal list \<times> int list)" where
  "collate items =
     (if list_all (\<lambda>x. map length (fst x) = map length (fst (hd items))) items
      then Inr (map fst items, map snd items) else Inl RuntimeError)"

definition next_batch ::
  "signal MData \<Rightarrow> (nat \<Rightarrow> nat) \<Rightarrow> nat list \<Rightarrow> error + (signal list \<times> int list)" where
  "next_batch d rnd is = (case fetch d rnd is of Inl e \<Rightarrow> Inl e | Inr items \<Rightarrow> collate items)"

text \<open>
  \<^verbatim>\<open>data[:, k, :]\<close> takes channel \<open>k\<close> of every example of a batch and raises when there is
  none.
\<close>

definition channel :: "nat \<Rightarrow> signal list \<Rightarrow> error + real list list" where
  "channel k batch =
     (if list_all (\<lambda>x. k < length x) batch then Inr (map (\<lambda>x. x ! k) batch)
      else Inl IndexError)"

section \<open>The evaluation routine\<close>

text \<open>
  \<^verbatim>\<open>
  def test(model, target_test_loader):
      model.eval()
      test_loss = AverageMeter()
      correct = 0
      criterion = torch.nn.CrossEntropyLoss()
      len_target_dataset = len(target_test_loader.dataset)
      with torch.no_grad():
          for data, target in target_test_loader:
              data_eeg = data[:, 0, :].float().to(device).unsqueeze(1)
              data_eog = data[:, 1, :].float().to(device).unsqueeze(1)
              target = target.long().to(device)
              c1, c2, o1, o2 = model(data_eog, data_eeg)
              cout = c1 + c2
              loss = criterion(cout, target)
              test_loss.update(loss.item())
              pred = torch.max(cout, 1)[1]
              correct += torch.sum(pred == target)
      acc = 100. * correct / len_target_dataset
      return acc, test_loss.avg
  \<close>
  The criterion raises ValueError when the logits have another number of rows than
  there are labels; what it computes otherwise is the framework's.

  \<open>test_batch\<close> is the body of the loop, on the model, the running loss and the number
  of correct predictions; \<open>test_batches\<close> is the loop. The result of \<open>test\<close> carries the
  model as the call leaves it: in evaluation mode, and in the state in which the
  forward passes left the network.
\<close>

definition criterion_call ::
  "('p, 'o, 'a) framework \<Rightarrow> tensor \<Rightarrow> int list \<Rightarrow> error + real" where
  "criterion_call ext cout target =
     (if length (rows cout) \<noteq> length target then Inl ValueError
      else CrossEntropyLoss ext cout target)"

definition test_batch ::
  "('p, 'o, 'a) framework \<Rightarrow> signal MData \<Rightarrow> (nat \<Rightarrow> nat) \<Rightarrow> 'p model \<times> AverageMeter \<times> nat
     \<Rightarrow> nat list \<Rightarrow> error + ('p model \<times> AverageMeter \<times> nat)" where
  "test_batch ext d rnd st is =
     (case st of (m, test_loss, correct) \<Rightarrow>
      (case next_batch d rnd is of Inl e \<Rightarrow> Inl e | Inr (data', target) \<Rightarrow>
      (case channel 0 data' of Inl e \<Rightarrow> Inl e | Inr data_eeg \<Rightarrow>
      (case channel 1 data' of Inl e \<Rightarrow> Inl e | Inr data_eog \<Rightarrow>
      (case forward ext (params m) (training m) data_eog data_eeg of
        Inl e \<Rightarrow> Inl e | Inr ((c1, c2, o1, o2), p) \<Rightarrow>
      (case tensor_add c1 c2 of Inl e \<Rightarrow> Inl e | Inr cout \<Rightarrow>
      (case criterion_call ext cout target of Inl e \<Rightarrow> Inl e | Inr loss' \<Rightarrow>
      (case update test_loss loss' 1 of Inl e \<Rightarrow> Inl e | Inr meter \<Rightarrow>
      (case argmax_rows cout of Inl e \<Rightarrow> Inl e | Inr pred \<Rightarrow>
      (case count_equal pred target of Inl e \<Rightarrow> Inl e | Inr n \<Rightarrow>
        Inr (m\<lparr>params := p\<rparr>, meter, correct + n)))))))))))"

fun test_batches ::
  "('p, 'o, 'a) framework \<Rightarrow> signal MData \<Rightarrow> (nat \<Rightarrow> nat) \<Rightarrow> 'p model \<times> AverageMeter \<times> nat
     \<Rightarrow> nat list list \<Rightarrow> error + ('p model \<times> AverageMeter \<times> nat)" where
  "test_batches ext d rnd st [] = Inr st"
| "test_batches ext d rnd st (is # rest) =
     (case test_batch ext d rnd st is of
        Inl e \<Rightarrow> Inl e
      | Inr st' \<Rightarrow> test_batches ext d rnd st' rest)"

definition test ::
  "('p, 'o, 'a) framework \<Rightarrow> pass \<Rightarrow> 'p model \<Rightarrow> signal loader
     \<Rightarrow> error + ('p model \<times> real \<times> real)" where
  "test ext ps model' target_test_loader =
     (let len_target_dataset = MData_len (source target_test_loader)
      in case test_batches ext (source target_test_loader) (entropy ps)
                (model'\<lparr>training := False\<rparr>, reset, 0)
                (index_batches (sampler ps) target_test_loader) of
           Inl e \<Rightarrow> Inl e
         | Inr (m, test_loss, correct) \<Rightarrow>
             if len_target_dataset = 0 then Inl ZeroDivisionError
             else Inr (m, 100 * real correct / real len_target_dataset, avg test_loss))"

section \<open>The training routine\<close>

text \<open>
  \<^verbatim>\<open>
  def train(model, dataset, args, save_path, start_epoch=0):
      best_acc = 0
      file_name = ''
      train_loader = DataLoader(dataset['train'],
                                batch_size=args.batch_size,
                                shuffle=True)
      valid_loader = DataLoader(dataset['valid'], batch_size=args.batch_size)
      test_loader = DataLoader(dataset['test'], batch_size=args.batch_size)
      train_loss_clf = AverageMeter()
      criterion = MutiLoss(args.loss, args.weight, args.loss_weight)
      logger.info(f'weight:{args.weight} mode:{args.loss_weight}')
      optimizer = torch.optim.Adam(model.parameters(), ...)
      tar = None

      for epoch in range(start_epoch, args.epoch):
          model.train()
          train_loss_clf.reset()
          correct = 0

          for data, label in train_loader:
              data_eeg = data[:, 0, :].float().to(device).unsqueeze(1)
              data_eog = data[:, 1, :].float().to(device).unsqueeze(1)
              label = label.long().to(device)
              optimizer.zero_grad()
              c1, c2, o1, o2 = model(data_eog, data_eeg)
              if args.loss == 'cos':
                  tar = torch.ones_like(label).to(device)
              loss = criterion(c1, label, c2, label, o1, o2, tar)
              loss.backward()
              optimizer.step()
              pred = torch.max(c1, 1)[1]
              correct += torch.sum(pred == label)
              train_loss_clf.update(loss.item())
          acc = 100. * correct / len(dataset['train'])
          info = 'Epoch: [{:2d}], total_loss: {:.4f},train-acc:[{:.4f}]'.format(
              epoch, train_loss_clf.avg, acc)
          valid_acc, valid_loss = test(model, valid_loader)
          info += f' || valid acc:[{valid_acc:.4f}], loss {valid_loss:.4f}'
          test_acc, test_loss = test(model, test_loader)
          info += f' || test acc:[{test_acc:.4f}], loss {test_loss:.4f}'

          if best_acc <= valid_acc:
              best_acc = valid_acc
              state_dict = model.state_dict()
              if file_name and os.path.exists(file_name):
                  os.remove(file_name)
              file_name = '{}/{}-{:.4f}.pt'.format(save_path, epoch, test_acc)
              torch.save({'model': state_dict, 'epoch': epoch}, file_name)

          logger.info(info)
  \<close>
  The local variables that live across batches and epochs are a record; the variable
  \<^verbatim>\<open>model\<close> is written \<open>model'\<close>. Every function returns the world next to its result
  or its exception: what was written and logged before an exception stays.
\<close>

record ('p, 'a) locals =
  model' :: "'p model"
  optimizer :: 'a
  tar :: "int list option"
  best_acc :: real
  file_name :: string

text \<open>The body of the loop over the batches, on the locals, the running loss and the count.\<close>

definition train_batch ::
  "('p, 'o, 'a) framework \<Rightarrow> args \<Rightarrow> signal MData \<Rightarrow> (nat \<Rightarrow> nat) \<Rightarrow> 'o criterion
     \<Rightarrow> ('p, 'a) locals \<times> AverageMeter \<times> nat \<Rightarrow> nat list \<Rightarrow> 'p world
     \<Rightarrow> (error + ('p, 'a) locals \<times> AverageMeter \<times> nat) \<times> 'p world" where
  "train_batch ext a d rnd criterion st is w =
     (case st of (l, train_loss_clf, correct) \<Rightarrow>
      (case next_batch d rnd is of Inl e \<Rightarrow> (Inl e, w) | Inr (data', label') \<Rightarrow>
      (case channel 0 data' of Inl e \<Rightarrow> (Inl e, w) | Inr data_eeg \<Rightarrow>
      (case channel 1 data' of Inl e \<Rightarrow> (Inl e, w) | Inr data_eog \<Rightarrow>
      (case forward ext (params (model' l)) (training (model' l)) data_eog data_eeg of
        Inl e \<Rightarrow> (Inl e, w) | Inr ((c1, c2, o1, o2), p) \<Rightarrow>
      let tar' = (if loss a = ''cos'' then Some (map (\<lambda>t. 1) label') else tar l);
          w' = w\<lparr>calls := calls w @ [tar']\<rparr>
      in (case criterion c1 label' c2 label' o1 o2 tar' of
        Inl e \<Rightarrow> (Inl e, w') | Inr loss' \<Rightarrow>
      let ps = step ext p (optimizer l) data_eog data_eeg label' tar'
      in (case argmax_rows c1 of Inl e \<Rightarrow> (Inl e, w') | Inr pred \<Rightarrow>
      (case count_equal pred label' of Inl e \<Rightarrow> (Inl e, w') | Inr n \<Rightarrow>
      (case update train_loss_clf loss' 1 of Inl e \<Rightarrow> (Inl e, w') | Inr meter \<Rightarrow>
        (Inr (l\<lparr>model' := (model' l)\<lparr>params := fst ps\<rparr>, optimizer := snd ps, tar := tar'\<rparr>,
              meter, correct + n), w'))))))))))"

fun train_batches ::
  "('p, 'o, 'a) framework \<Rightarrow> args \<Rightarrow> signal MData \<Rightarrow> (nat \<Rightarrow> nat) \<Rightarrow> 'o criterion
     \<Rightarrow> ('p, 'a) locals \<times> AverageMeter \<times> nat \<Rightarrow> nat list list \<Rightarrow> 'p world
     \<Rightarrow> (error + ('p, 'a) locals \<times> AverageMeter \<times> nat) \<times> 'p world" where
  "train_batches ext a d rnd criterion st [] w = (Inr st, w)"
| "train_batches ext a d rnd criterion st (is # rest) w =
     (case train_batch ext a d rnd criterion st is w of
        (Inl e, w') \<Rightarrow> (Inl e, w')
      | (Inr st', w') \<Rightarrow> train_batches ext a d rnd criterion st' rest w')"

text \<open>
  The checkpoint decision at the end of an epoch. When the saving raises, the file of
  the previous checkpoint is already removed.
\<close>

definition checkpoint_name ::
  "('p, 'o, 'a) framework \<Rightarrow> string \<Rightarrow> int \<Rightarrow> real \<Rightarrow> string" where
  "checkpoint_name ext save_path ep test_acc =
     save_path @ ''/'' @ str_int ep @ ''-'' @ format_4f ext test_acc @ ''.pt''"

definition checkpoint ::
  "('p, 'o, 'a) framework \<Rightarrow> string \<Rightarrow> int \<Rightarrow> real \<Rightarrow> real \<Rightarrow> ('p, 'a) locals \<Rightarrow> 'p world
     \<Rightarrow> (error + ('p, 'a) locals) \<times> 'p world" where
  "checkpoint ext save_path ep valid_acc test_acc l w =
     (if best_acc l \<le> valid_acc then
        (let state_dict = params (model' l)
         in case (if file_name l \<noteq> [] \<and> exists (file_name l) w
                  then remove (file_name l) w else Inr w) of
              Inl e \<Rightarrow> (Inl e, w)
            | Inr w1 \<Rightarrow>
                (let fn = checkpoint_name ext save_path ep test_acc
                 in case save [(''model'', State_dict state_dict), (''epoch'', Py_int ep)]
                           fn w1 of
                      Inl e \<Rightarrow> (Inl e, w1)
                    | Inr w2 \<Rightarrow> (Inr (l\<lparr>best_acc := valid_acc, file_name := fn\<rparr>), w2)))
      else (Inr l, w))"

text \<open>
  One epoch; \<open>ps ep k\<close> is what is random in the pass over the training loader
  (\<open>k = ''train''\<close>), the validation loader (\<open>''valid''\<close>) and the test loader
  (\<open>''test''\<close>) in epoch \<open>ep\<close>.
\<close>

definition train_epoch ::
  "('p, 'o, 'a) framework \<Rightarrow> (int \<Rightarrow> string \<Rightarrow> pass) \<Rightarrow> args \<Rightarrow> logger \<Rightarrow> string
     \<Rightarrow> 'o criterion \<Rightarrow> signal loader \<Rightarrow> signal loader \<Rightarrow> signal loader
     \<Rightarrow> int \<Rightarrow> ('p, 'a) locals \<Rightarrow> 'p world \<Rightarrow> (error + ('p, 'a) locals) \<times> 'p world" where
  "train_epoch ext ps a lg save_path criterion train_loader valid_loader test_loader ep l w =
     (case train_batches ext a (source train_loader) (entropy (ps ep ''train'')) criterion
             (l\<lparr>model' := (model' l)\<lparr>training := True\<rparr>\<rparr>, reset, 0)
             (index_batches (sampler (ps ep ''train'')) train_loader) w of
        (Inl e, w1) \<Rightarrow> (Inl e, w1)
      | (Inr (l2, train_loss_clf, correct), w1) \<Rightarrow>
          if MData_len (source train_loader) = 0 then (Inl ZeroDivisionError, w1)
          else
           (let acc = 100 * real correct / real (MData_len (source train_loader))
            in case test ext (ps ep ''valid'') (model' l2) valid_loader of
                 Inl e \<Rightarrow> (Inl e, w1)
               | Inr (m3, valid_acc, valid_loss) \<Rightarrow>
                   (case test ext (ps ep ''test'') m3 test_loader of
                      Inl e \<Rightarrow> (Inl e, w1)
                    | Inr (m4, test_acc, test_loss) \<Rightarrow>
                        (case checkpoint ext save_path ep valid_acc test_acc
                                (l2\<lparr>model' := m4\<rparr>) w1 of
                           (Inl e, w2) \<Rightarrow> (Inl e, w2)
                         | (Inr l3, w2) \<Rightarrow>
                             (Inr l3,
                              logger_info lg
                                (Epoch_info ep (avg train_loss_clf) acc valid_acc valid_loss
                                   test_acc test_loss) w2)))))"

fun train_epochs ::
  "('p, 'o, 'a) framework \<Rightarrow> (int \<Rightarrow> string \<Rightarrow> pass) \<Rightarrow> args \<Rightarrow> logger \<Rightarrow> string
     \<Rightarrow> 'o criterion \<Rightarrow> signal loader \<Rightarrow> signal loader \<Rightarrow> signal loader
     \<Rightarrow> int list \<Rightarrow> ('p, 'a) locals \<Rightarrow> 'p world \<Rightarrow> (error + ('p, 'a) locals) \<times> 'p world" where
  "train_epochs ext ps a lg save_path criterion trl vll tel [] l w = (Inr l, w)"
| "train_epochs ext ps a lg save_path criterion trl vll tel (ep # eps) l w =
     (case train_epoch ext ps a lg save_path criterion trl vll tel ep l w of
        (Inl e, w') \<Rightarrow> (Inl e, w')
      | (Inr l', w') \<Rightarrow> train_epochs ext ps a lg save_path criterion trl vll tel eps l' w')"

text \<open>A dictionary with string keys, and its lookup.\<close>

definition dict_get :: "(string \<times> 'v) list \<Rightarrow> string \<Rightarrow> error + 'v" where
  "dict_get d k = (case map_of d k of None \<Rightarrow> Inl KeyError | Some v \<Rightarrow> Inr v)"

text \<open>The loader that \<^verbatim>\<open>train\<close> builds on one of the three datasets.\<close>

definition loader_of ::
  "(string \<times> 'x MData) list \<Rightarrow> args \<Rightarrow> string \<Rightarrow> bool \<Rightarrow> error + 'x loader" where
  "loader_of dataset' a k sh =
     (case dict_get dataset' k of Inl e \<Rightarrow> Inl e | Inr d \<Rightarrow> DataLoader d (batch_size a) sh)"

text \<open>
  \<^verbatim>\<open>train\<close>; \<open>lg\<close> is the global \<^verbatim>\<open>logger\<close>. The result is the locals after the last
  epoch (Python returns nothing) or the exception that ended the run.
\<close>

definition train ::
  "('p, 'o, 'a) framework \<Rightarrow> (int \<Rightarrow> string \<Rightarrow> pass) \<Rightarrow> logger \<Rightarrow> 'p model
     \<Rightarrow> (string \<times> signal MData) list \<Rightarrow> args \<Rightarrow> string \<Rightarrow> int \<Rightarrow> 'p world
     \<Rightarrow> (error + ('p, 'a) locals) \<times> 'p world" where
  "train ext ps lg m dataset' a save_path start_epoch w =
     (case loader_of dataset' a ''train'' True of Inl e \<Rightarrow> (Inl e, w) | Inr train_loader \<Rightarrow>
      (case loader_of dataset' a ''valid'' False of Inl e \<Rightarrow> (Inl e, w) | Inr valid_loader \<Rightarrow>
      (case loader_of dataset' a ''test'' False of Inl e \<Rightarrow> (Inl e, w) | Inr test_loader \<Rightarrow>
        train_epochs ext ps a lg save_path (MutiLoss ext (loss a) (weight a) (loss_weight a))
          train_loader valid_loader test_loader [start_epoch .. epoch a - 1]
          \<lparr>model' = m, optimizer = Adam ext (params m), tar = None, best_acc = 0,
           file_name = []\<rparr>
          (logger_info lg Weight_mode w))))"

section \<open>The entry point\<close>

text \<open>
  \<^verbatim>\<open>
  def init_path(args):
      name = f'{args.name}-{args.loss}'
      savepaths = [
          f'{name}', f'{name}/{args.dataset}',
          '{}/{}/{}'.format(name, args.dataset, fold)
      ]
      for pth in savepaths:
          if not os.path.exists(pth):
              os.mkdir(pth)
      save_path = savepaths[-1]
      logger = get_logger('{}/log.txt'.format(save_path), str(fold))
      logger.info('Using args :{}'.format(args))
      return logger, save_path
  \<close>
  \<open>fold'\<close> is the global variable \<^verbatim>\<open>fold\<close> that the loop of the entry point sets.
\<close>

definition savepaths :: "args \<Rightarrow> int \<Rightarrow> string list" where
  "savepaths a fold' =
     (let nm = name a @ ''-'' @ loss a
      in [nm, nm @ ''/'' @ dataset a, nm @ ''/'' @ dataset a @ ''/'' @ str_int fold'])"

fun mkdirs :: "string list \<Rightarrow> 'p world \<Rightarrow> (error + unit) \<times> 'p world" where
  "mkdirs [] w = (Inr (), w)"
| "mkdirs (pth # rest) w =
     (if \<not> exists pth w
      then (case mkdir pth w of Inl e \<Rightarrow> (Inl e, w) | Inr w' \<Rightarrow> mkdirs rest w')
      else mkdirs rest w)"

definition init_path :: "args \<Rightarrow> int \<Rightarrow> 'p world \<Rightarrow> (error + logger \<times> string) \<times> 'p world" where
  "init_path a fold' w =
     (case mkdirs (savepaths a fold') w of
        (Inl e, w1) \<Rightarrow> (Inl e, w1)
      | (Inr u, w1) \<Rightarrow>
          (let save_path = last (savepaths a fold')
           in case get_logger (save_path @ ''/log.txt'') (str_int fold') w1 of
                (Inl e, w2) \<Rightarrow> (Inl e, w2)
              | (Inr lg, w2) \<Rightarrow> (Inr (lg, save_path), logger_info lg Using_args w2)))"

text \<open>
  \<^verbatim>\<open>
  def get_dataset(args):
      dataset = {
          'train': MData(args.dataset, 'train', 'ALL', fold),
          'valid': MData(args.dataset, 'valid', 'ALL', fold),
          'test': MData(args.dataset, 'test', 'ALL', fold),
      }
      return dataset
  \<close>
\<close>

definition get_dataset :: "'x adjustment \<Rightarrow> args \<Rightarrow> int \<Rightarrow> (string \<times> 'x MData) list" where
  "get_dataset adjust a fold' =
     [(''train'', MData_init adjust (dataset a) ''train'' ''ALL'' fold'),
      (''valid'', MData_init adjust (dataset a) ''valid'' ''ALL'' fold'),
      (''test'', MData_init adjust (dataset a) ''test'' ''ALL'' fold')]"

text \<open>
  \<^verbatim>\<open>
  for fold in range(args.start, args.end):
      logger, pth = init_path(args)
      model, start_epoch = get_model(args, pth)
      dataset = get_dataset(args)
      train(model, dataset, args, pth, start_epoch)
  \<close>
  \<open>fresh fold'\<close> is the state that \<^verbatim>\<open>MODEL()\<close> draws in that fold and \<open>ps fold'\<close> what is
  random in the passes of its training. The result is the exception that ended the
  run, if any, and the world the run leaves.
\<close>

fun folds ::
  "('p, 'o, 'a) framework \<Rightarrow> (int \<Rightarrow> int \<Rightarrow> string \<Rightarrow> pass) \<Rightarrow> signal adjustment
     \<Rightarrow> (int \<Rightarrow> 'p) \<Rightarrow> args \<Rightarrow> int list \<Rightarrow> 'p world \<Rightarrow> error option \<times> 'p world" where
  "folds ext ps adjust fresh a [] w = (None, w)"
| "folds ext ps adjust fresh a (fold' # rest) w =
     (case init_path a fold' w of
        (Inl e, w1) \<Rightarrow> (Some e, w1)
      | (Inr (lg, pth), w1) \<Rightarrow>
          (case get_model ext (fresh fold') lg a pth w1 of
             (Inl e, w2) \<Rightarrow> (Some e, w2)
           | (Inr (m, start_epoch), w2) \<Rightarrow>
               (case train ext (ps fold') lg m (get_dataset adjust a fold') a pth start_epoch w2 of
                  (Inl e, w3) \<Rightarrow> (Some e, w3)
                | (Inr (l :: ('p, 'a) locals), w3) \<Rightarrow> folds ext ps adjust fresh a rest w3)))"

definition main ::
  "('p, 'o, 'a) framework \<Rightarrow> (int \<Rightarrow> int \<Rightarrow> string \<Rightarrow> pass) \<Rightarrow> signal adjustment
     \<Rightarrow> (int \<Rightarrow> 'p) \<Rightarrow> args \<Rightarrow> 'p world \<Rightarrow> error option \<times> 'p world" where
  "main ext ps adjust fresh a w = folds ext ps adjust fresh a [start a .. end' a - 1] w"

section \<open>Notions used in the properties\<close>

text \<open>The indices that Python accepts for a list.\<close>

definition in_range :: "'a list \<Rightarrow> int \<Rightarrow> bool" where
  "in_range xs i = (- int (length xs) \<le> i \<and> i < int (length xs))"

text \<open>
  What \<^verbatim>\<open>get_model\<close> can learn from an entry: that it is a directory, that it does not
  unpickle, or else its \<^verbatim>\<open>'model'\<close> entry, if it has one.
\<close>

definition model_entry :: "'p contents \<Rightarrow> error + 'p pyval option" where
  "model_entry c =
     (case c of
        Directory \<Rightarrow> Inl OSError
      | Other \<Rightarrow> Inl UnpicklingError
      | Pickled d \<Rightarrow> Inr (map_of d ''model''))"

text \<open>
  The two classifier outputs of the network for one batch of a dataset, with the labels
  of the batch and the state in which the forward pass leaves the network.
\<close>

definition heads ::
  "('p, 'o, 'a) framework \<Rightarrow> signal MData \<Rightarrow> (nat \<Rightarrow> nat) \<Rightarrow> 'p \<Rightarrow> bool \<Rightarrow> nat list
     \<Rightarrow> error + (tensor \<times> tensor \<times> int list \<times> 'p)" where
  "heads ext d rnd p mode is =
     (case next_batch d rnd is of Inl e \<Rightarrow> Inl e | Inr (data', target) \<Rightarrow>
      (case channel 0 data' of Inl e \<Rightarrow> Inl e | Inr data_eeg \<Rightarrow>
      (case channel 1 data' of Inl e \<Rightarrow> Inl e | Inr data_eog \<Rightarrow>
      (case forward ext p mode data_eog data_eeg of
        Inl e \<Rightarrow> Inl e | Inr ((c1, c2, o1, o2), p') \<Rightarrow> Inr (c1, c2, target, p')))))"

text \<open>
  The score of class \<open>j\<close> for example \<open>i\<close> in a tensor whose single row, or single
  column, stands for all of them. \<open>is_sum c1 c2 cout\<close>: the tensor \<open>cout\<close> has the rows
  and columns of \<open>c1\<close> and \<open>c2\<close>, and each of its scores is the sum of the two scores at
  its place. For two tensors of the same shape, with more than one row and column,
  that is \<open>cout[i][j] = c1[i][j] + c2[i][j]\<close>.
\<close>

definition score :: "tensor \<Rightarrow> nat \<Rightarrow> nat \<Rightarrow> real" where
  "score c i j = rows c ! (if length (rows c) = 1 then 0 else i) ! (if ncols c = 1 then 0 else j)"

definition is_sum :: "tensor \<Rightarrow> tensor \<Rightarrow> tensor \<Rightarrow> bool" where
  "is_sum c1 c2 cout =
     (length (rows cout) = (if length (rows c1) = 1 then length (rows c2) else length (rows c1))
      \<and> ncols cout = (if ncols c1 = 1 then ncols c2 else ncols c1)
      \<and> list_all (\<lambda>i. length (rows cout ! i) = ncols cout
                      \<and> list_all (\<lambda>j. rows cout ! i ! j = score c1 i j + score c2 i j)
                           [0 ..< ncols cout])
           [0 ..< length (rows cout)])"

text \<open>
  \<open>is_argmax row k\<close>: the score at \<open>k\<close> is the greatest of the row, and the first one that
  is. \<open>hits cout target\<close>: the number of examples whose label is the argmax of their row.
\<close>

definition is_argmax :: "real list \<Rightarrow> nat \<Rightarrow> bool" where
  "is_argmax row k =
     (k < length row \<and> list_all (\<lambda>j. row ! j \<le> row ! k) [0 ..< length row]
      \<and> list_all (\<lambda>j. row ! j < row ! k) [0 ..< k])"

definition hits :: "tensor \<Rightarrow> int list \<Rightarrow> nat" where
  "hits cout target =
     length (filter (\<lambda>i. list_ex (\<lambda>k. is_argmax (rows cout ! i) k \<and> int k = target ! i)
                            [0 ..< ncols cout])
               [0 ..< length target])"

text \<open>
  What the evaluation of one batch yields: the two heads, their sum, the labels, the
  cross-entropy loss of the sum, and the state of the network afterwards. The batch is
  evaluated in evaluation mode, on the state \<open>p\<close>; the sum has one row per label and at
  least one score in a row.
\<close>

record 'p evaluation =
  first_head :: tensor
  second_head :: tensor
  combined :: tensor
  labels :: "int list"
  batch_loss :: real
  state_after :: 'p

definition evaluated ::
  "('p, 'o, 'a) framework \<Rightarrow> signal MData \<Rightarrow> (nat \<Rightarrow> nat) \<Rightarrow> 'p \<Rightarrow> nat list
     \<Rightarrow> 'p evaluation \<Rightarrow> bool" where
  "evaluated ext d rnd p is r =
     (heads ext d rnd p False is
        = Inr (first_head r, second_head r, labels r, state_after r)
      \<and> is_sum (first_head r) (second_head r) (combined r)
      \<and> CrossEntropyLoss ext (combined r) (labels r) = Inr (batch_loss r)
      \<and> length (rows (combined r)) = length (labels r)
      \<and> length (labels r) = length is
      \<and> 0 < ncols (combined r))"

text \<open>The evaluations of the batches of a pass, each on the state the one before left.\<close>

fun evaluations ::
  "('p, 'o, 'a) framework \<Rightarrow> signal MData \<Rightarrow> (nat \<Rightarrow> nat) \<Rightarrow> 'p \<Rightarrow> nat list list
     \<Rightarrow> 'p evaluation list \<Rightarrow> bool" where
  "evaluations ext d rnd p [] rs = (rs = [])"
| "evaluations ext d rnd p (is # bss) rs =
     (rs \<noteq> [] \<and> evaluated ext d rnd p is (hd rs)
      \<and> evaluations ext d rnd (state_after (hd rs)) bss (tl rs))"

text \<open>
  The order that a shuffling loader draws for a pass is a rearrangement of the indices
  of its dataset.
\<close>

definition rearranges :: "(nat list \<Rightarrow> nat list) \<Rightarrow> 'x loader \<Rightarrow> bool" where
  "rearranges ord l =
     (distinct (ord [0 ..< MData_len (source l)])
      \<and> set (ord [0 ..< MData_len (source l)]) = {0 ..< MData_len (source l)})"

text \<open>
  Modelled from the spec: the network (\<^verbatim>\<open>net.py\<close>) is missing. Of its inference mode the
  specification says "deterministic forward behavior e.g. disabling dropout/batch-norm
  updates": a forward pass in evaluation mode leaves the state of the network as it
  is. (That the pass is deterministic is in the type of \<open>forward\<close>: its result is a
  function of the state, the mode and the inputs.)
\<close>

definition frozen_in_eval :: "('p, 'o, 'a) framework \<Rightarrow> bool" where
  "frozen_in_eval ext =
     (\<forall>p eog eeg r p'. forward ext p False eog eeg = Inr (r, p') \<longrightarrow> p' = p)"

text \<open>
  Two passes over a dataset fetch the same items: for every index, the transformation
  of its signal comes out the same in both.
\<close>

definition same_items :: "'x MData \<Rightarrow> pass \<Rightarrow> pass \<Rightarrow> bool" where
  "same_items d ps1 ps2 =
     (\<forall>i. MData_getitem d (entropy ps2 i) (int i) = MData_getitem d (entropy ps1 i) (int i))"

text \<open>
  The checkpoint policy in the words of its description, on what an epoch yields: its
  number, its validation accuracy, its test accuracy and the state of the network after
  it. The policy keeps the best validation accuracy so far, the name of the checkpoint
  saved last, and the files. An epoch whose validation accuracy is at least the best
  so far becomes the best: the file saved last, if any, is deleted, and a file named by
  the epoch and its test accuracy is saved with the state and the epoch. Any other
  epoch changes nothing. A training run starts with the best accuracy 0 and no name.
\<close>

record 'p outcome =
  epoch_no :: int
  valid_accuracy :: real
  test_accuracy :: real
  final_state :: 'p

type_synonym 'p policy = "real \<times> string \<times> (string \<rightharpoonup> 'p contents)"

definition spec_checkpoint ::
  "(real \<Rightarrow> string) \<Rightarrow> string \<Rightarrow> 'p policy \<Rightarrow> 'p outcome \<Rightarrow> 'p policy" where
  "spec_checkpoint fmt sp s x =
     (case s of (best, prev, fm) \<Rightarrow>
        if best \<le> valid_accuracy x
        then (valid_accuracy x,
              sp @ ''/'' @ str_int (epoch_no x) @ ''-'' @ fmt (test_accuracy x) @ ''.pt'',
              (if prev \<noteq> [] then fm(prev := None) else fm)
                (sp @ ''/'' @ str_int (epoch_no x) @ ''-'' @ fmt (test_accuracy x) @ ''.pt''
                   \<mapsto> Pickled [(''model'', State_dict (final_state x)),
                                (''epoch'', Py_int (epoch_no x))]))
        else s)"

definition spec_checkpoints ::
  "(real \<Rightarrow> string) \<Rightarrow> string \<Rightarrow> 'p outcome list \<Rightarrow> 'p policy \<Rightarrow> 'p policy" where
  "spec_checkpoints fmt sp xs s = foldl (spec_checkpoint fmt sp) s xs"

text \<open>
  The epoch, the validation accuracy and the test accuracy of the lines that \<^verbatim>\<open>train\<close>
  logs at the end of its epochs, among logged lines; and what a line shows of an
  outcome.
\<close>

definition epoch_lines :: "log_line list \<Rightarrow> (int \<times> real \<times> real) list" where
  "epoch_lines lines =
     concat (map (\<lambda>(p, n, m). case m of Epoch_info e trl tra va vl tea tel \<Rightarrow> [(e, va, tea)]
                                | _ \<Rightarrow> [])
               lines)"

definition shown :: "'p outcome \<Rightarrow> int \<times> real \<times> real" where
  "shown x = (epoch_no x, valid_accuracy x, test_accuracy x)"

text \<open>
  An outcome is what the two evaluations of an epoch return: the validation accuracy on
  the validation loader for some state of the network, and then the test accuracy on
  the test loader, after which the network has the state of the outcome.
\<close>

definition measured ::
  "('p, 'o, 'a) framework \<Rightarrow> (int \<Rightarrow> string \<Rightarrow> pass) \<Rightarrow> signal loader \<Rightarrow> signal loader
     \<Rightarrow> 'p outcome \<Rightarrow> bool" where
  "measured ext ps vll tel x =
     (\<exists>m mv mt vl tl.
        test ext (ps (epoch_no x) ''valid'') m vll = Inr (mv, valid_accuracy x, vl)
        \<and> test ext (ps (epoch_no x) ''test'') mv tel = Inr (mt, test_accuracy x, tl)
        \<and> final_state x = params mt)"

section \<open>Concrete runs\<close>

text \<open>
  The default command line, with two epochs, and the logger of fold 21 in a run
  directory \<^verbatim>\<open>d\<close>.
\<close>

definition demo_args :: args where
  "demo_args =
     \<lparr>resume = True, lr = 1 / 10000, batch_size = 2, epoch = 2, dataset = ''MASS'',
      device_id = 0, name = ''EE'', weight = [1, 1, 1], start = 21, end' = 31,
      trans = False, loss = ''cos'', loss_weight = ''auto''\<rparr>"

definition demo_logger :: logger where
  "demo_logger = \<lparr>logger_name = ''21'', log_path = ''d/log.txt''\<rparr>"

text \<open>
  A run directory with the checkpoints of epochs 9 and 10, listed in this order.
  States of the network are numbers here.
\<close>

definition two_checkpoints :: "nat world" where
  "two_checkpoints =
     \<lparr>files = [(''d'', Directory),
               (''d/9-50.0000.pt'', Pickled [(''model'', State_dict 9), (''epoch'', Py_int 9)]),
               (''d/10-60.0000.pt'', Pickled [(''model'', State_dict 10), (''epoch'', Py_int 10)])],
      log = [], history = [], calls = []\<rparr>"

text \<open>The same directory with other numbers, or none, under the key \<^verbatim>\<open>'epoch'\<close>.\<close>

definition two_checkpoints_tampered :: "nat world" where
  "two_checkpoints_tampered =
     \<lparr>files = [(''d'', Directory),
               (''d/9-50.0000.pt'', Pickled [(''model'', State_dict 9)]),
               (''d/10-60.0000.pt'', Pickled [(''epoch'', Py_int 77), (''model'', State_dict 10)])],
      log = [], history = [], calls = []\<rparr>"

text \<open>A dataset that was filled with one signal of two channels but never given transformations.\<close>

definition filled_MData :: "nat list MData" where
  "filled_MData = \<lparr>data = [[7, 8]], label = [1], transformations = None\<rparr>"

text \<open>
  The cross-entropy loss of a batch, as the framework computes it when every label is
  a class index: the mean over the examples of \<open>ln (\<Sum>j. exp x\<^sub>j) - x\<^sub>t\<close> for the row \<open>x\<close>
  of scores and the label \<open>t\<close>.
\<close>

definition cross_entropy :: "tensor \<Rightarrow> int list \<Rightarrow> error + real" where
  "cross_entropy input target =
     (if rows input = [] \<or> length (rows input) \<noteq> length target then Inl ValueError
      else if \<not> list_all (\<lambda>(row, t). 0 \<le> t \<and> t < int (length row)) (zip (rows input) target)
      then Inl IndexError
      else Inr (sum_list (map (\<lambda>(row, t). ln (sum_list (map exp row)) - row ! nat t)
                  (zip (rows input) target)) / real (length (rows input))))"

text \<open>
  The text of a number with four decimals, rounded to the nearest. On the accuracies of
  the example runs, which binary floating point stores exactly and which are multiples
  of \<open>1/10000\<close>, it is the text that \<^verbatim>\<open>'{:.4f}'.format\<close> gives.
\<close>

definition pad4 :: "string \<Rightarrow> string" where
  "pad4 s = replicate (4 - length s) (CHR ''0'') @ s"

definition decimal_4f :: "real \<Rightarrow> string" where
  "decimal_4f x =
     (let n = nat \<lfloor>\<bar>x\<bar> * 10000 + 1 / 2\<rfloor>
      in (if x < 0 then [CHR ''-''] else [])
         @ str_nat (n div 10000) @ [CHR ''.''] @ pad4 (str_nat (n mod 10000)))"

text \<open>
  A small network and optimizer standing in for the modules outside this file. A
  channel of a signal is a sequence of samples, and the state of the network is the
  number of optimizer steps taken so far. The first head scores class 0 with the sum of
  the EEG samples and class 1 with the state; the second head scores class 0 with the
  sum of the EOG samples and class 1 with 0. A forward pass leaves the state as it is.
  The composite criterion adds the cross-entropy losses of the two heads, and in mode
  \<^verbatim>\<open>cos\<close> it needs its target. Every state fits the network, and no directory is found
  for a name with pattern characters.
\<close>

definition demo_net :: "(nat, unit, nat) framework" where
  "demo_net =
     \<lparr>forward = (\<lambda>p training eog eeg.
         Inr ((\<lparr>ncols = 2, rows = map (\<lambda>s. [sum_list s, real p]) eeg\<rparr>,
               \<lparr>ncols = 2, rows = map (\<lambda>s. [sum_list s, 0]) eog\<rparr>, (), ()), p)),
      CrossEntropyLoss = cross_entropy,
      MutiLoss = (\<lambda>mode weight loss_weight c1 l1 c2 l2 o1 o2 tar.
         if mode = ''cos'' \<and> tar = None then Inl TypeError
         else (case cross_entropy c1 l1 of
                 Inl e \<Rightarrow> Inl e
               | Inr x \<Rightarrow> (case cross_entropy c2 l2 of Inl e \<Rightarrow> Inl e | Inr y \<Rightarrow> Inr (x + y)))),
      Adam = (\<lambda>p. 0),
      step = (\<lambda>p s eog eeg label tar. (p + 1, s + 1)),
      fits = (\<lambda>p. True),
      format_4f = decimal_4f,
      glob_dirs = (\<lambda>pattern names. [])\<rparr>"

text \<open>
  A constructor adjusted to a dataset of signals with two channels of one sample: one
  training example, two validation examples and two test examples, without
  transformations.
\<close>

definition demo_adjust :: "signal adjustment" where
  "demo_adjust ds mode ch seed d =
     (if mode = ''train''
      then d\<lparr>data := [[[1 / 2], [0]]], label := [1], transformations := Some None\<rparr>
      else if mode = ''valid''
      then d\<lparr>data := [[[1 / 2], [0]], [[3 / 2], [0]]], label := [1, 1],
              transformations := Some None\<rparr>
      else d\<lparr>data := [[[1 / 2], [0]], [[3 / 2], [0]]], label := [1, 0],
              transformations := Some None\<rparr>)"

definition demo_valid :: "signal loader" where
  "demo_valid =
     \<lparr>source = MData_init demo_adjust ''MASS'' ''valid'' ''ALL'' 21, bsize = 2, shuffle = False\<rparr>"

text \<open>
  A loader of two examples on which the two heads disagree: the first head alone
  predicts class 1 for the first example and class 0 for the second, the sum of the
  heads predicts class 0 and class 1, which are the labels.
\<close>

definition demo_both :: "signal loader" where
  "demo_both =
     \<lparr>source = \<lparr>data = [[[1 / 2], [1]], [[3 / 2], [- 1]]], label = [0, 1],
                 transformations = Some None\<rparr>,
      bsize = 2, shuffle = False\<rparr>"

text \<open>
  A loader that shuffles three examples in batches of two, and two orders that its
  sampler can draw.
\<close>

definition shuffled_three :: "signal loader" where
  "shuffled_three =
     \<lparr>source = \<lparr>data = [[[0], [0]], [[1], [0]], [[1], [0]]], label = [0, 0, 0],
                 transformations = Some None\<rparr>,
      bsize = 2, shuffle = True\<rparr>"

definition as_listed :: pass where
  "as_listed = \<lparr>sampler = (\<lambda>xs. xs), entropy = (\<lambda>i. 0)\<rparr>"

definition backwards :: pass where
  "backwards = \<lparr>sampler = rev, entropy = (\<lambda>i. i)\<rparr>"

text \<open>A world in which the run directory \<^verbatim>\<open>d\<close> exists and is empty.\<close>

definition fresh_dir :: "nat world" where
  "fresh_dir = \<lparr>files = [(''d'', Directory)], log = [], history = [], calls = []\<rparr>"

text \<open>The model with no optimizer step taken, and with one, in evaluation mode.\<close>

definition eval0 :: "nat model" where
  "eval0 = \<lparr>params = 0, training = False\<rparr>"

definition eval1 :: "nat model" where
  "eval1 = \<lparr>params = 1, training = False\<rparr>"

text \<open>
  The training runs of the examples: the model as \<^verbatim>\<open>MODEL()\<close> makes it, with no step
  taken, the datasets of fold 21, and a sampler that draws the listed order in every
  epoch.
\<close>

definition train0 :: "nat model" where
  "train0 = \<lparr>params = 0, training = True\<rparr>"

definition demo_data :: "(string \<times> signal MData) list" where
  "demo_data = get_dataset demo_adjust demo_args 21"

definition demo_passes :: "int \<Rightarrow> string \<Rightarrow> pass" where
  "demo_passes ep k = as_listed"

text \<open>
  The locals and the world after the first epoch of the example run, and after its
  second epoch.
\<close>

definition locals0 :: "(nat, nat) locals" where
  "locals0 =
     \<lparr>model' = eval1, optimizer = 1, tar = Some [1], best_acc = 50,
      file_name = ''d/0-100.0000.pt''\<rparr>"

definition world0 :: "nat world" where
  "world0 =
     \<lparr>files = [(''d'', Directory),
               (''d/0-100.0000.pt'', Pickled [(''model'', State_dict 1), (''epoch'', Py_int 0)])],
      log = [(''d/log.txt'', ''21'', Weight_mode),
             (''d/log.txt'', ''21'',
              Epoch_info 0 (ln (exp (1 / 2) + 1) + ln 2) 0 50
                ((ln (exp (1 / 2) + exp 1) + ln (exp (3 / 2) + exp 1) - 2) / 2) 100
                ((ln (exp (1 / 2) + exp 1) + ln (exp (3 / 2) + exp 1) - 5 / 2) / 2))],
      history = [[(''d'', Directory),
                  (''d/0-100.0000.pt'',
                   Pickled [(''model'', State_dict 1), (''epoch'', Py_int 0)])]],
      calls = [Some [1]]\<rparr>"

definition locals1 :: "(nat, nat) locals" where
  "locals1 =
     \<lparr>model' = \<lparr>params = 2, training = False\<rparr>, optimizer = 2, tar = Some [1],
      best_acc = 100, file_name = ''d/1-50.0000.pt''\<rparr>"

definition world1 :: "nat world" where
  "world1 =
     \<lparr>files = [(''d'', Directory),
               (''d/1-50.0000.pt'', Pickled [(''model'', State_dict 2), (''epoch'', Py_int 1)])],
      log = [(''d/log.txt'', ''21'', Weight_mode),
             (''d/log.txt'', ''21'',
              Epoch_info 0 (ln (exp (1 / 2) + 1) + ln 2) 0 50
                ((ln (exp (1 / 2) + exp 1) + ln (exp (3 / 2) + exp 1) - 2) / 2) 100
                ((ln (exp (1 / 2) + exp 1) + ln (exp (3 / 2) + exp 1) - 5 / 2) / 2)),
             (''d/log.txt'', ''21'',
              Epoch_info 1 (ln (exp (1 / 2) + exp 1) - 1 + ln 2) 100 100
                ((ln (exp (1 / 2) + exp 2) + ln (exp (3 / 2) + exp 2) - 4) / 2) 50
                ((ln (exp (1 / 2) + exp 2) + ln (exp (3 / 2) + exp 2) - 7 / 2) / 2))],
      history = [[(''d'', Directory),
                  (''d/1-50.0000.pt'',
                   Pickled [(''model'', State_dict 2), (''epoch'', Py_int 1)])],
                 [(''d'', Directory)],
                 [(''d'', Directory),
                  (''d/0-100.0000.pt'',
                   Pickled [(''model'', State_dict 1), (''epoch'', Py_int 0)])]],
      calls = [Some [1], Some [1]]\<rparr>"

section \<open>Properties of AverageMeter\<close>

lemma total_weight_nonneg:
  "positive_weights xs \<Longrightarrow> 0 \<le> total_weight xs"
  by (induction xs) (auto simp: positive_weights_def total_weight_def)

lemma total_weight_pos:
  assumes "xs \<noteq> []" and "positive_weights xs"
  shows "0 < total_weight xs"
proof (cases xs)
  case Nil
  with assms(1) show ?thesis by simp
next
  case (Cons x ys)
  with assms(2) have "0 < snd x" and "positive_weights ys"
    by (auto simp: positive_weights_def)
  with total_weight_nonneg [of ys] Cons show ?thesis
    by (simp add: total_weight_def)
qed

lemma updates_fields:
  assumes "positive_weights xs" and "0 \<le> count m" and "xs \<noteq> []"
  shows "\<exists>m'. updates m xs = Inr m'
           \<and> sum' m' = sum' m + weighted_sum xs
           \<and> count m' = count m + total_weight xs
           \<and> avg m' = (sum' m + weighted_sum xs) / (count m + total_weight xs)"
  using assms
proof (induction xs arbitrary: m)
  case Nil
  then show ?case by simp
next
  case (Cons x xs)
  obtain v n where x: "x = (v, n)" by (cases x)
  from Cons.prems x have n: "0 < n" and rest: "positive_weights xs"
    by (simp_all add: positive_weights_def)
  from n Cons.prems(2) have c: "count m + n \<noteq> 0" by linarith
  define m1 where "m1 = \<lparr>val = v, avg = (sum' m + v * n) / (count m + n),
                          sum' = sum' m + v * n, count = count m + n\<rparr>"
  from c have u: "update m v n = Inr m1"
    by (simp add: update_def m1_def Let_def)
  show ?case
  proof (cases "xs = []")
    case True
    with u x show ?thesis
      by (simp add: m1_def weighted_sum_def total_weight_def)
  next
    case False
    from n Cons.prems(2) have "0 \<le> count m1" by (simp add: m1_def)
    from Cons.IH [OF rest this False] obtain m' where
      "updates m1 xs = Inr m'"
      "sum' m' = sum' m1 + weighted_sum xs"
      "count m' = count m1 + total_weight xs"
      "avg m' = (sum' m1 + weighted_sum xs) / (count m1 + total_weight xs)"
      by blast
    with u x show ?thesis
      by (simp add: m1_def weighted_sum_def total_weight_def add.assoc)
  qed
qed

text \<open>
  C4. After \<^verbatim>\<open>reset()\<close>, any sequence of \<^verbatim>\<open>update(value, weight)\<close> calls whose
  weights are all positive raises nothing and leaves the meter with
  sum = \<Sum> value * weight, count = \<Sum> weight and avg = sum / count. For a non-empty
  sequence the total weight is positive, so the quotient is a real division; for the
  empty sequence all three fields are 0, as \<^verbatim>\<open>reset()\<close> left them.
\<close>

theorem AverageMeter_updates:
  assumes "positive_weights xs"
  shows "\<exists>m. updates reset xs = Inr m
           \<and> sum' m = weighted_sum xs
           \<and> count m = total_weight xs
           \<and> avg m = weighted_sum xs / total_weight xs
           \<and> (if xs = [] then avg m = 0 else 0 < total_weight xs)"
proof (cases "xs = []")
  case True
  then show ?thesis
    by (simp add: reset_def weighted_sum_def total_weight_def)
next
  case False
  have "0 \<le> count reset" by (simp add: reset_def)
  from updates_fields [OF assms this False] total_weight_pos [OF False assms] False
  show ?thesis by (simp add: reset_def)
qed

theorem AverageMeter_updates_witness:
  "positive_weights [(2, 1), (5, 3)]
   \<and> (\<exists>m. updates reset [(2, 1), (5, 3)] = Inr m
        \<and> sum' m = 17 \<and> count m = 4 \<and> avg m = 17 / 4)"
proof -
  have p: "positive_weights [(2, 1), (5, 3)]"
    by (simp add: positive_weights_def)
  from AverageMeter_updates [OF p] show ?thesis
    using p by (simp add: weighted_sum_def total_weight_def)
qed

section \<open>Properties of MData\<close>

lemma py_index_in_range:
  "py_index xs i =
     (if in_range xs i then Inr (xs ! nat (if i < 0 then int (length xs) + i else i))
      else Inl IndexError)"
  by (auto simp: py_index_def in_range_def)

text \<open>
  C8, as stated, fails: item access on a freshly constructed MData does not reach the
  read of \<^verbatim>\<open>transformations\<close>. The list \<^verbatim>\<open>data\<close> is empty and is indexed first, so the
  access raises IndexError, not AttributeError.
\<close>

theorem MData_getitem_fresh_counterexample:
  "MData_getitem (MData_init unadjusted ''MASS'' ''train'' ''ALL'' 21 :: nat list MData) 0 0
     = Inl IndexError
   \<and> MData_getitem (MData_init unadjusted ''MASS'' ''train'' ''ALL'' 21 :: nat list MData) 0 0
     \<noteq> Inl AttributeError"
  by (simp add: MData_getitem_def MData_init_def unadjusted_def py_index_def)

text \<open>
  C8, amended. Item access on a freshly constructed MData raises IndexError at every
  integer index. On any MData whose \<^verbatim>\<open>transformations\<close> was never assigned, item access
  never returns: it raises AttributeError when the index is in the range of both
  \<^verbatim>\<open>data\<close> and \<^verbatim>\<open>label\<close>, and IndexError otherwise.
\<close>

theorem MData_getitem_unassigned:
  "MData_getitem (MData_init unadjusted ds mode ch seed :: 'x MData) r idx = Inl IndexError
   \<and> (transformations (d :: 'x MData) = None \<longrightarrow>
        MData_getitem d r idx =
          (if in_range (data d) idx \<and> in_range (label d) idx then Inl AttributeError
           else Inl IndexError))"
  by (simp add: MData_getitem_def MData_init_def unadjusted_def py_index_in_range in_range_def)

theorem MData_getitem_unassigned_witness:
  "transformations filled_MData = None
   \<and> MData_getitem filled_MData 0 0 = Inl AttributeError
   \<and> MData_getitem filled_MData 0 1 = Inl IndexError"
proof -
  have t: "transformations filled_MData = None"
    by (simp add: filled_MData_def)
  have r0: "in_range (data filled_MData) 0 \<and> in_range (label filled_MData) 0"
    by (simp add: filled_MData_def in_range_def)
  have r1: "\<not> in_range (data filled_MData) 1"
    by (simp add: filled_MData_def in_range_def)
  from MData_getitem_unassigned [of "''MASS''" "''train''" "''ALL''" 21 0 0 filled_MData] t r0
  have a: "MData_getitem filled_MData 0 0 = Inl AttributeError" by simp
  from MData_getitem_unassigned [of "''MASS''" "''train''" "''ALL''" 21 0 1 filled_MData] t r1
  have b: "MData_getitem filled_MData 0 1 = Inl IndexError" by simp
  from t a b show ?thesis by simp
qed

section \<open>Properties of get\_model\<close>

lemma split_on_hd: "split_on c s = takeWhile (\<lambda>x. x \<noteq> c) s # tl (split_on c s)"
  by (induction s) (auto split: list.splits)

lemma split_on_case:
  "(case split_on c s of [] \<Rightarrow> a | pre # rest \<Rightarrow> f pre rest)
     = f (takeWhile (\<lambda>x. x \<noteq> c) s) (tl (split_on c s))"
  by (subst split_on_hd) simp

text \<open>The result of \<^verbatim>\<open>get_model\<close>, case by case.\<close>

lemma get_model_fst:
  "fst (get_model ext fresh lg a pth w) =
     (if resume a \<and> glob_pt ext pth w \<noteq> [] then
        (case py_int (takeWhile (\<lambda>c. c \<noteq> CHR ''-'') (basename (last (glob_pt ext pth w)))) of
           Inl e \<Rightarrow> Inl e
         | Inr n \<Rightarrow>
            (case map_of (files w) (last (glob_pt ext pth w)) of
               None \<Rightarrow> Inl OSError
             | Some c \<Rightarrow>
                (case model_entry c of
                   Inl e \<Rightarrow> Inl e
                 | Inr None \<Rightarrow> Inl KeyError
                 | Inr (Some (Py_int i)) \<Rightarrow> Inl TypeError
                 | Inr (Some (State_dict p)) \<Rightarrow>
                     if fits ext p then Inr (\<lparr>params = p, training = True\<rparr>, n + 1)
                     else Inl RuntimeError)))
      else Inr (\<lparr>params = fresh, training = True\<rparr>, 0))"
proof (cases "resume a \<and> glob_pt ext pth w \<noteq> []")
  case False
  then show ?thesis by (auto simp: get_model_def Let_def)
next
  case True
  define f where "f = last (glob_pt ext pth w)"
  show ?thesis
  proof (cases "py_int (takeWhile (\<lambda>c. c \<noteq> CHR ''-'') (basename f))")
    case (Inl e)
    with True show ?thesis
      by (simp add: get_model_def Let_def split_on_case f_def)
  next
    case (Inr n)
    show ?thesis
    proof (cases "map_of (files w) f")
      case None
      with True Inr show ?thesis
        by (simp add: get_model_def Let_def split_on_case f_def torch_load_def logger_info_def)
    next
      case (Some c)
      show ?thesis
      proof (cases c)
        case Directory
        with True Inr Some show ?thesis
          by (simp add: get_model_def Let_def split_on_case f_def torch_load_def
              logger_info_def model_entry_def)
      next
        case Other
        with True Inr Some show ?thesis
          by (simp add: get_model_def Let_def split_on_case f_def torch_load_def
              logger_info_def model_entry_def)
      next
        case (Pickled d)
        with True Inr Some show ?thesis
          by (simp add: get_model_def Let_def split_on_case f_def torch_load_def
              logger_info_def model_entry_def load_state_dict_def
              split: option.split pyval.split)
      qed
    qed
  qed
qed

text \<open>The checkpoints that the loader finds in the example directory, and what it returns.\<close>

lemmas glob_eval = glob_pt_def dirname_def basename_def has_magic_def glob_in_def is_dir_def
  is_checkpoint_def in_dir_def path_join_def fnmatch_pt_def ends_with_def Let_def

lemma demo_glob:
  "glob_pt demo_net ''d'' two_checkpoints = [''d/9-50.0000.pt'', ''d/10-60.0000.pt'']"
  by (simp add: glob_eval two_checkpoints_def)

lemma demo_glob_tampered:
  "glob_pt demo_net ''d'' two_checkpoints_tampered = [''d/9-50.0000.pt'', ''d/10-60.0000.pt'']"
  by (simp add: glob_eval two_checkpoints_tampered_def)

lemma demo_prefix:
  "py_int (takeWhile (\<lambda>c. c \<noteq> CHR ''-'') (basename ''d/10-60.0000.pt'')) = Inr 10"
  by code_simp

lemma demo_resumed:
  "fst (get_model demo_net 0 demo_logger demo_args ''d'' two_checkpoints)
     = Inr (\<lparr>params = 10, training = True\<rparr>, 11)"
  unfolding get_model_fst demo_glob
  by (simp add: demo_prefix two_checkpoints_def model_entry_def demo_args_def demo_net_def)

text \<open>
  C2, as stated, fails: the file chosen is the last one of the list that \<^verbatim>\<open>glob\<close>
  returns, which comes in the order of the directory listing and is not sorted. In a
  directory that lists the checkpoint of epoch 9 before that of epoch 10, the loader
  resumes at epoch 11, while the lexicographically last name is that of epoch 9, for
  which the claim asks to resume at epoch 10.
\<close>

theorem get_model_last_listed_counterexample:
  "fst (get_model demo_net 0 demo_logger demo_args ''d'' two_checkpoints)
     = Inr (\<lparr>params = 10, training = True\<rparr>, 11)
   \<and> last (sort (glob_pt demo_net ''d'' two_checkpoints)) = ''d/9-50.0000.pt''
   \<and> py_int (hd (split_on (CHR ''-'') (basename ''d/9-50.0000.pt''))) = Inr 9"
proof -
  have "last (sort [''d/9-50.0000.pt'', ''d/10-60.0000.pt'']) = ''d/9-50.0000.pt''"
    by code_simp
  moreover have "py_int (hd (split_on (CHR ''-'') (basename ''d/9-50.0000.pt''))) = Inr 9"
    by code_simp
  ultimately show ?thesis
    by (simp add: demo_resumed demo_glob)
qed

text \<open>
  C2, amended. With resume requested and at least one path in the list that \<^verbatim>\<open>glob\<close>
  returns for the run directory, the loader takes the last path of that list (which is
  in the order of the directory listing, not sorted), reads the text before the first
  \<^verbatim>\<open>-\<close> of its base name as an integer \<open>n\<close>, and, when it returns, returns the start epoch
  \<open>n + 1\<close> with the model whose state is the one stored under \<^verbatim>\<open>'model'\<close> in that file.
  When that list is empty, or resume is not requested, it returns the freshly
  initialised model and the start epoch 0.
\<close>

theorem get_model_start_epoch:
  "(resume a \<and> glob_pt ext pth w \<noteq> [] \<and> fst (get_model ext fresh lg a pth w) = Inr (m, se) \<longrightarrow>
      (\<exists>n d p. py_int (takeWhile (\<lambda>c. c \<noteq> CHR ''-'') (basename (last (glob_pt ext pth w))))
                  = Inr n
         \<and> se = n + 1
         \<and> map_of (files w) (last (glob_pt ext pth w)) = Some (Pickled d)
         \<and> map_of d ''model'' = Some (State_dict p)
         \<and> m = \<lparr>params = p, training = True\<rparr>))
   \<and> (\<not> (resume a \<and> glob_pt ext pth w \<noteq> []) \<longrightarrow>
        fst (get_model ext fresh lg a pth w) = Inr (\<lparr>params = fresh, training = True\<rparr>, 0))"
proof (cases "resume a \<and> glob_pt ext pth w \<noteq> []")
  case False
  then show ?thesis by (auto simp: get_model_fst)
next
  case True
  then show ?thesis
    by (auto simp: get_model_fst model_entry_def
        split: sum.splits option.splits contents.splits pyval.splits if_splits)
qed

theorem get_model_start_epoch_witness:
  "resume demo_args
   \<and> glob_pt demo_net ''d'' two_checkpoints = [''d/9-50.0000.pt'', ''d/10-60.0000.pt'']
   \<and> fst (get_model demo_net 0 demo_logger demo_args ''d'' two_checkpoints)
       = Inr (\<lparr>params = 10, training = True\<rparr>, 11)
   \<and> py_int (takeWhile (\<lambda>c. c \<noteq> CHR ''-'') (basename ''d/10-60.0000.pt'')) = Inr 10
   \<and> map_of (files two_checkpoints) ''d/10-60.0000.pt''
       = Some (Pickled [(''model'', State_dict 10), (''epoch'', Py_int 10)])
   \<and> fst (get_model demo_net 0 demo_logger (demo_args\<lparr>resume := False\<rparr>) ''d'' two_checkpoints)
       = Inr (\<lparr>params = 0, training = True\<rparr>, 0)"
proof -
  have r: "resume demo_args" by (simp add: demo_args_def)
  from get_model_start_epoch [of demo_args demo_net "''d''" two_checkpoints 0 demo_logger
      "\<lparr>params = 10, training = True\<rparr>" 11] r demo_glob demo_resumed
  obtain n d where
    "py_int (takeWhile (\<lambda>c. c \<noteq> CHR ''-'') (basename ''d/10-60.0000.pt'')) = Inr n"
    "(11::int) = n + 1"
    "map_of (files two_checkpoints) ''d/10-60.0000.pt'' = Some (Pickled d)"
    "map_of d ''model'' = Some (State_dict (10::nat))"
    by auto
  moreover from this(3) have "d = [(''model'', State_dict 10), (''epoch'', Py_int 10)]"
    by (simp add: two_checkpoints_def)
  moreover have "fst (get_model demo_net 0 demo_logger (demo_args\<lparr>resume := False\<rparr>) ''d''
        two_checkpoints) = Inr (\<lparr>params = 0, training = True\<rparr>, 0)"
    using get_model_start_epoch [of "demo_args\<lparr>resume := False\<rparr>" demo_net "''d''"
        two_checkpoints 0 demo_logger "\<lparr>params = 0, training = True\<rparr>" 0]
    by simp
  ultimately show ?thesis using r demo_glob demo_resumed by simp
qed

text \<open>
  C9. What the loader returns depends on the names of the entries and on what they hold
  under \<^verbatim>\<open>'model'\<close>, and on nothing else in them: in two worlds that list the same
  names and agree, entry by entry, on whether the entry is a directory, on whether it
  unpickles and on its \<^verbatim>\<open>'model'\<close> entry, the loader returns the same model and the
  same start epoch (or raises the same exception), whatever the files hold under
  \<^verbatim>\<open>'epoch'\<close>.
\<close>

lemma model_entry_Directory: "model_entry c = Inl OSError \<longleftrightarrow> c = Directory"
  by (cases c) (simp_all add: model_entry_def)

lemma is_dir_model_entry:
  assumes "map_option model_entry (map_of (files w1) d) = map_option model_entry (map_of (files w2) d)"
  shows "is_dir d w1 = is_dir d w2"
proof (cases "map_of (files w1) d")
  case None
  with assms show ?thesis by (simp add: is_dir_def)
next
  case (Some c1)
  with assms obtain c2 where "map_of (files w2) d = Some c2" "model_entry c1 = model_entry c2"
    by (cases "map_of (files w2) d") auto
  with Some model_entry_Directory [of c1] model_entry_Directory [of c2] show ?thesis
    by (simp add: is_dir_def)
qed

theorem get_model_ignores_epoch:
  assumes "map fst (files w1) = map fst (files w2)"
    and "\<forall>f. map_option model_entry (map_of (files w1) f)
           = map_option model_entry (map_of (files w2) f)"
  shows "fst (get_model ext fresh lg a pth w1) = fst (get_model ext fresh lg a pth w2)"
proof -
  from assms(2) have "is_dir d w1 = is_dir d w2" for d
    by (intro is_dir_model_entry) blast
  with assms(1) have "glob_in d w1 = glob_in d w2" for d
    by (simp add: glob_in_def)
  with assms(1) have g: "glob_pt ext pth w1 = glob_pt ext pth w2"
    by (simp add: glob_pt_def Let_def)
  define f where "f = last (glob_pt ext pth w2)"
  from assms(2) have e: "map_option model_entry (map_of (files w1) f)
      = map_option model_entry (map_of (files w2) f)"
    by blast
  show ?thesis
  proof (cases "map_of (files w1) f")
    case None
    with e have n2: "map_of (files w2) f = None" by simp
    show ?thesis
      unfolding get_model_fst g f_def [symmetric] None n2 by simp
  next
    case (Some c1)
    with e obtain c2 where c2: "map_of (files w2) f = Some c2"
      and m: "model_entry c1 = model_entry c2"
      by (cases "map_of (files w2) f") auto
    show ?thesis
      unfolding get_model_fst g f_def [symmetric] Some c2 option.case m by simp
  qed
qed

theorem get_model_ignores_epoch_witness:
  "map fst (files two_checkpoints) = map fst (files two_checkpoints_tampered)
   \<and> fst (get_model demo_net 0 demo_logger demo_args ''d'' two_checkpoints_tampered)
       = Inr (\<lparr>params = 10, training = True\<rparr>, 11)"
proof -
  have n: "map fst (files two_checkpoints) = map fst (files two_checkpoints_tampered)"
    by (simp add: two_checkpoints_def two_checkpoints_tampered_def)
  have m: "\<forall>f. map_option model_entry (map_of (files two_checkpoints) f)
           = map_option model_entry (map_of (files two_checkpoints_tampered) f)"
    by (simp add: two_checkpoints_def two_checkpoints_tampered_def model_entry_def)
  from get_model_ignores_epoch [OF n m, of demo_net 0 demo_logger demo_args "''d''"]
    demo_resumed n
  show ?thesis by simp
qed

section \<open>Properties of the evaluation routine\<close>

text \<open>Batches: every index is in exactly one batch, in order.\<close>

lemma chunks_concat: "0 < n \<Longrightarrow> concat (chunks n xs) = xs"
proof (induction n xs rule: chunks.induct)
  case (1 n xs)
  then show ?case by (subst chunks.simps) auto
qed

lemma chunks_nonempty: "0 < n \<Longrightarrow> xs \<noteq> [] \<Longrightarrow> chunks n xs \<noteq> []"
  by (subst chunks.simps) simp

lemma fetch_length: "fetch d rnd is = Inr items \<Longrightarrow> length items = length is"
  by (induction "is" arbitrary: items) (auto split: sum.splits)

lemma next_batch_length:
  "next_batch d rnd is = Inr (xs, target) \<Longrightarrow> length target = length is \<and> length xs = length is"
  by (auto simp: next_batch_def collate_def dest: fetch_length split: sum.splits if_splits)

lemma rearranges_length:
  assumes "rearranges ord l"
  shows "length (ord [0 ..< MData_len (source l)]) = MData_len (source l)"
proof -
  from assms have "length (ord [0 ..< MData_len (source l)])
      = card {0 ..< MData_len (source l)}"
    by (metis rearranges_def distinct_card)
  then show ?thesis by simp
qed

lemma index_batches_concat:
  assumes "0 < bsize l" and "rearranges ord l"
  shows "length (concat (index_batches ord l)) = MData_len (source l)"
  using assms rearranges_length [OF assms(2)]
  by (simp add: index_batches_def Let_def chunks_concat)

lemma index_batches_nonempty:
  assumes "0 < bsize l" and "rearranges ord l" and "0 < MData_len (source l)"
  shows "index_batches ord l \<noteq> []"
proof -
  from index_batches_concat [OF assms(1,2)] assms(3)
  have "length (concat (index_batches ord l)) \<noteq> 0" by simp
  then have "concat (index_batches ord l) \<noteq> []" by (simp only: length_0_conv not_False_eq_True)
  then show ?thesis by auto
qed

text \<open>The index that \<^verbatim>\<open>torch.max\<close> returns for a row is its argmax, and the only one.\<close>

lemma max_index_less: "xs \<noteq> [] \<Longrightarrow> max_index xs < length xs"
  by (induction xs rule: max_index.induct) (auto simp: Let_def)

lemma max_index_greatest: "x \<in> set xs \<Longrightarrow> x \<le> xs ! max_index xs"
proof (induction xs rule: max_index.induct)
  case 1
  then show ?case by simp
next
  case (2 x)
  then show ?case by simp
next
  case (3 a y ys)
  then show ?case by (auto simp: Let_def not_less intro: order_trans)
qed

lemma max_index_first: "i < max_index xs \<Longrightarrow> xs ! i < xs ! max_index xs"
proof (induction xs arbitrary: i rule: max_index.induct)
  case 1
  then show ?case by simp
next
  case (2 x)
  then show ?case by simp
next
  case (3 a y ys)
  show ?case
  proof (cases "a < (y # ys) ! max_index (y # ys)")
    case True
    with "3.prems" "3.IH" show ?thesis
      by (cases i) (auto simp: Let_def)
  next
    case False
    with "3.prems" show ?thesis by (simp add: Let_def)
  qed
qed

lemma is_argmax_iff:
  assumes "row \<noteq> []"
  shows "is_argmax row k \<longleftrightarrow> k = max_index row"
proof
  assume "k = max_index row"
  with assms max_index_less [OF assms] show "is_argmax row k"
    by (auto simp: is_argmax_def list_all_iff intro: max_index_greatest max_index_first)
next
  assume a: "is_argmax row k"
  then have k: "k < length row" and ge: "\<And>j. j < length row \<Longrightarrow> row ! j \<le> row ! k"
    and lt: "\<And>j. j < k \<Longrightarrow> row ! j < row ! k"
    by (auto simp: is_argmax_def list_all_iff)
  let ?m = "max_index row"
  from max_index_less [OF assms] have m: "?m < length row" .
  show "k = ?m"
  proof (rule ccontr)
    assume "k \<noteq> ?m"
    then consider "k < ?m" | "?m < k" by linarith
    then show False
    proof cases
      case 1
      from max_index_first [OF 1] ge [OF m] show False by simp
    next
      case 2
      from lt [OF 2] max_index_greatest [of "row ! k" row] k show False by simp
    qed
  qed
qed

text \<open>The tensor that \<^verbatim>\<open>c1 + c2\<close> returns is the sum of the two, score by score.\<close>

lemma tensor_add_is_sum:
  assumes "tensor_add c1 c2 = Inr cout"
  shows "is_sum c1 c2 cout \<and> well_formed cout"
proof -
  from assms obtain m n where
    m: "broadcast (length (rows c1)) (length (rows c2)) = Some m"
    and n: "broadcast (ncols c1) (ncols c2) = Some n"
    and c: "cout = \<lparr>ncols = n,
          rows = map (\<lambda>i. map (\<lambda>j. rows c1 ! (if length (rows c1) = 1 then 0 else i)
                                       ! (if ncols c1 = 1 then 0 else j)
                                   + rows c2 ! (if length (rows c2) = 1 then 0 else i)
                                       ! (if ncols c2 = 1 then 0 else j)) [0 ..< n])
                   [0 ..< m]\<rparr>"
    by (auto simp: tensor_add_def Let_def split: if_splits option.splits)
  from m have m': "m = (if length (rows c1) = 1 then length (rows c2) else length (rows c1))"
    by (auto simp: broadcast_def split: if_splits)
  from n have n': "n = (if ncols c1 = 1 then ncols c2 else ncols c1)"
    by (auto simp: broadcast_def split: if_splits)
  have "length (rows cout) = m" "ncols cout = n" by (simp_all add: c)
  moreover have "list_all (\<lambda>i. length (rows cout ! i) = n
        \<and> list_all (\<lambda>j. rows cout ! i ! j = score c1 i j + score c2 i j) [0 ..< n]) [0 ..< m]"
    by (simp add: c list_all_iff score_def)
  moreover have "well_formed cout"
    by (simp add: c well_formed_def list_all_iff)
  ultimately show ?thesis
    using m' n' by (simp add: is_sum_def)
qed

text \<open>
  The count that \<^verbatim>\<open>torch.sum(pred == target)\<close> returns, for logits with one row per
  label, is the number of examples whose label is the argmax of their row.
\<close>

lemma count_equal_hits:
  assumes "argmax_rows cout = Inr pred" and "count_equal pred target = Inr n"
    and "length (rows cout) = length target"
  shows "n = hits cout target \<and> 0 < ncols cout"
proof -
  from assms(1) have wf: "well_formed cout" and nc: "0 < ncols cout"
    and pred: "pred = map max_index (rows cout)"
    by (auto simp: argmax_rows_def split: if_splits)
  from pred assms(3) have lp: "length pred = length target" by simp
  from assms(2) lp have "n = length (filter
       (\<lambda>i. int (pred ! (if length target = 1 then 0 else i))
               = target ! (if length target = 1 then 0 else i)) [0 ..< length target])"
    by (auto simp: count_equal_def broadcast_def)
  also have "\<dots> = length (filter (\<lambda>i. int (pred ! i) = target ! i) [0 ..< length target])"
    by (rule arg_cong [where f = length], rule filter_cong) auto
  also have "\<dots> = hits cout target"
    unfolding hits_def
  proof (rule arg_cong [where f = length], rule filter_cong)
    fix i assume "i \<in> set [0 ..< length target]"
    then have i: "i < length (rows cout)" using assms(3) by simp
    with wf have len: "length (rows cout ! i) = ncols cout"
      by (simp add: well_formed_def list_all_length)
    with nc have ne: "rows cout ! i \<noteq> []" by auto
    from max_index_less [OF ne] len have "max_index (rows cout ! i) < ncols cout" by simp
    then have "list_ex (\<lambda>k. is_argmax (rows cout ! i) k \<and> int k = target ! i) [0 ..< ncols cout]
        \<longleftrightarrow> int (max_index (rows cout ! i)) = target ! i"
      by (auto simp: list_ex_iff is_argmax_iff [OF ne])
    with pred i show "(int (pred ! i) = target ! i)
        = list_ex (\<lambda>k. is_argmax (rows cout ! i) k \<and> int k = target ! i) [0 ..< ncols cout]"
      by simp
  qed simp
  finally show ?thesis using nc by simp
qed

text \<open>What the body of the loop does when it does not raise, and the loop.\<close>

lemma test_batch_evaluated:
  assumes "test_batch ext d rnd (m, mt, c) is = Inr (m', mt', c')" and "training m = False"
  shows "\<exists>r. evaluated ext d rnd (params m) is r
           \<and> update mt (batch_loss r) 1 = Inr mt'
           \<and> c' = c + hits (combined r) (labels r)
           \<and> m' = m\<lparr>params := state_after r\<rparr>"
proof -
  from assms(1) obtain data' target data_eeg data_eog c1 c2 o1 o2 p cout ce pred n where
    nb: "next_batch d rnd is = Inr (data', target)"
    and ch0: "channel 0 data' = Inr data_eeg" and ch1: "channel 1 data' = Inr data_eog"
    and fw: "forward ext (params m) (training m) data_eog data_eeg = Inr ((c1, c2, o1, o2), p)"
    and ta: "tensor_add c1 c2 = Inr cout"
    and cc: "criterion_call ext cout target = Inr ce"
    and up: "update mt ce 1 = Inr mt'"
    and am: "argmax_rows cout = Inr pred"
    and n: "count_equal pred target = Inr n"
    and c': "c' = c + n" and m': "m' = m\<lparr>params := p\<rparr>"
    by (auto simp: test_batch_def split: sum.splits prod.splits)
  from cc have len: "length (rows cout) = length target"
    and ce: "CrossEntropyLoss ext cout target = Inr ce"
    by (auto simp: criterion_call_def split: if_splits)
  define r where "r = \<lparr>first_head = c1, second_head = c2, combined = cout, labels = target,
                        batch_loss = ce, state_after = p\<rparr>"
  from nb ch0 ch1 fw assms(2) have h: "heads ext d rnd (params m) False is = Inr (c1, c2, target, p)"
    by (simp add: heads_def)
  from count_equal_hits [OF am n len] have hn: "n = hits cout target" and nc: "0 < ncols cout"
    by simp_all
  from h tensor_add_is_sum [OF ta] ce len next_batch_length [OF nb] nc
  have "evaluated ext d rnd (params m) is r"
    by (simp add: evaluated_def r_def)
  moreover from up have "update mt (batch_loss r) 1 = Inr mt'" by (simp add: r_def)
  moreover from c' hn have "c' = c + hits (combined r) (labels r)" by (simp add: r_def)
  moreover from m' have "m' = m\<lparr>params := state_after r\<rparr>" by (simp add: r_def)
  ultimately show ?thesis by blast
qed

lemma test_batches_evaluations:
  "test_batches ext d rnd (m, mt, c) bss = Inr (m', mt', c') \<Longrightarrow> training m = False \<Longrightarrow>
     \<exists>rs. evaluations ext d rnd (params m) bss rs
        \<and> updates mt (map (\<lambda>r. (batch_loss r, 1)) rs) = Inr mt'
        \<and> c' = c + sum_list (map (\<lambda>r. hits (combined r) (labels r)) rs)
        \<and> m' = m\<lparr>params := (if rs = [] then params m else state_after (last rs))\<rparr>"
proof (induction bss arbitrary: m mt c)
  case Nil
  then show ?case by simp
next
  case (Cons "is" bss)
  from Cons.prems(1) obtain m1 mt1 c1 where
    b: "test_batch ext d rnd (m, mt, c) is = Inr (m1, mt1, c1)"
    and rest: "test_batches ext d rnd (m1, mt1, c1) bss = Inr (m', mt', c')"
    by (auto split: sum.splits)
  from test_batch_evaluated [OF b Cons.prems(2)] obtain r where
    e: "evaluated ext d rnd (params m) is r"
    and u: "update mt (batch_loss r) 1 = Inr mt1"
    and c1: "c1 = c + hits (combined r) (labels r)"
    and m1: "m1 = m\<lparr>params := state_after r\<rparr>"
    by blast
  from m1 Cons.prems(2) have t1: "training m1 = False" and p1: "params m1 = state_after r"
    by simp_all
  from Cons.IH [OF rest t1] obtain rs where
    rs: "evaluations ext d rnd (params m1) bss rs"
    and us: "updates mt1 (map (\<lambda>r. (batch_loss r, 1)) rs) = Inr mt'"
    and c': "c' = c1 + sum_list (map (\<lambda>r. hits (combined r) (labels r)) rs)"
    and m': "m' = m1\<lparr>params := (if rs = [] then params m1 else state_after (last rs))\<rparr>"
    by blast
  show ?case
    by (rule exI [of _ "r # rs"]) (use e u c1 m1 p1 rs us c' m' in simp)
qed

lemma evaluations_lengths:
  "evaluations ext d rnd p bss rs \<Longrightarrow>
     length rs = length bss \<and> sum_list (map (\<lambda>r. length (labels r)) rs) = length (concat bss)"
proof (induction bss arbitrary: p rs)
  case Nil
  then show ?case by simp
next
  case (Cons "is" bss)
  then obtain r rs' where rs: "rs = r # rs'" by (cases rs) auto
  with Cons.prems have "evaluated ext d rnd p is r"
    and "evaluations ext d rnd (state_after r) bss rs'"
    by simp_all
  with Cons.IH [of "state_after r" rs'] rs show ?case
    by (simp add: evaluated_def)
qed

lemma evaluations_frozen:
  "evaluations ext d rnd p bss rs \<Longrightarrow> frozen_in_eval ext \<Longrightarrow> list_all (\<lambda>r. state_after r = p) rs"
proof (induction bss arbitrary: rs)
  case Nil
  then show ?case by simp
next
  case (Cons "is" bss)
  then obtain r rs' where rs: "rs = r # rs'" by (cases rs) auto
  with Cons.prems(1) have e: "evaluated ext d rnd p is r"
    and rest: "evaluations ext d rnd (state_after r) bss rs'"
    by simp_all
  from e Cons.prems(2) have "state_after r = p"
    by (auto simp: evaluated_def heads_def frozen_in_eval_def split: sum.splits prod.splits)
  with Cons.IH [of rs'] rest Cons.prems(2) rs show ?case by simp
qed

lemma unit_weights:
  "positive_weights (map (\<lambda>r. (batch_loss r, 1)) rs)
   \<and> weighted_sum (map (\<lambda>r. (batch_loss r, 1)) rs) = sum_list (map batch_loss rs)
   \<and> total_weight (map (\<lambda>r. (batch_loss r, 1)) rs) = real (length rs)"
  by (induction rs) (auto simp: positive_weights_def weighted_sum_def total_weight_def)

text \<open>
  C5. When the evaluation routine returns for a loader with a positive batch size whose
  pass visits every index once, it has evaluated at least one batch, the batches hold
  as many examples as the dataset, every batch was evaluated in evaluation mode, and
  the pair returned is
  \<^item> the accuracy \<open>100 * correct / total\<close>, where \<open>correct\<close> counts over all batches the
    examples whose label is the argmax (\<open>is_argmax\<close>: the first greatest score) of
    their row in the sum of the two heads (\<open>is_sum\<close>: score by score), and \<open>total\<close> is
    the length of the dataset;
  \<^item> the unweighted mean of the cross-entropy losses of the batches.

  The routine clears the mode flag and writes no parameter itself: the state of the
  network it leaves is the state in which the last forward pass left it. So it leaves
  the parameters it was given whenever the forward pass in evaluation mode does.
\<close>

theorem test_returns:
  assumes "test ext ps m ldr = Inr (m', acc, ls)"
    and "0 < bsize ldr" and "rearranges (sampler ps) ldr"
  shows "\<exists>rs. evaluations ext (source ldr) (entropy ps) (params m)
                 (index_batches (sampler ps) ldr) rs
           \<and> rs \<noteq> []
           \<and> sum_list (map (\<lambda>r. length (labels r)) rs) = MData_len (source ldr)
           \<and> acc = 100 * real (sum_list (map (\<lambda>r. hits (combined r) (labels r)) rs))
                     / real (MData_len (source ldr))
           \<and> ls = sum_list (map batch_loss rs) / real (length rs)
           \<and> training m' = False \<and> params m' = state_after (last rs)
           \<and> (frozen_in_eval ext \<longrightarrow> params m' = params m)"
proof -
  define d where "d = source ldr"
  define m0 where "m0 = m\<lparr>training := False\<rparr>"
  from assms(1) obtain mt c where
    tb: "test_batches ext d (entropy ps) (m0, reset, 0) (index_batches (sampler ps) ldr)
           = Inr (m', mt, c)"
    and len: "0 < MData_len d"
    and acc: "acc = 100 * real c / real (MData_len d)"
    and ls: "ls = avg mt"
    by (auto simp: test_def Let_def d_def m0_def split: sum.splits if_splits)
  have t0: "training m0 = False" and p0: "params m0 = params m" by (simp_all add: m0_def)
  from test_batches_evaluations [OF tb t0] obtain rs where
    rs: "evaluations ext d (entropy ps) (params m) (index_batches (sampler ps) ldr) rs"
    and us: "updates reset (map (\<lambda>r. (batch_loss r, 1)) rs) = Inr mt"
    and c: "c = sum_list (map (\<lambda>r. hits (combined r) (labels r)) rs)"
    and m': "m' = m0\<lparr>params := (if rs = [] then params m0 else state_after (last rs))\<rparr>"
    by (auto simp: p0)
  from evaluations_lengths [OF rs] index_batches_nonempty [OF assms(2,3)] len
  have ne: "rs \<noteq> []" by (auto simp: d_def)
  from evaluations_lengths [OF rs] index_batches_concat [OF assms(2,3)]
  have tot: "sum_list (map (\<lambda>r. length (labels r)) rs) = MData_len d"
    by (simp add: d_def)
  have "0 \<le> count reset" by (simp add: reset_def)
  from updates_fields [of "map (\<lambda>r. (batch_loss r, 1)) rs" reset] unit_weights [of rs]
    this ne us
  have av: "avg mt = sum_list (map batch_loss rs) / real (length rs)"
    by (simp add: reset_def)
  from m' ne t0 have tm: "training m' = False" and pm: "params m' = state_after (last rs)"
    by simp_all
  have fr: "frozen_in_eval ext \<longrightarrow> params m' = params m"
  proof
    assume "frozen_in_eval ext"
    from evaluations_frozen [OF rs this] ne have "state_after (last rs) = params m"
      by (simp add: list_all_iff)
    with pm show "params m' = params m" by simp
  qed
  from rs ne tot acc c ls av tm pm fr show ?thesis
    unfolding d_def by (intro exI [of _ rs]) simp
qed

text \<open>The evaluation routine on the example loaders.\<close>

lemma upt_numeral:
  "[i ..< numeral k] = (if i < numeral k then i # [Suc i ..< numeral k] else [])"
  by (rule upt_rec)

lemmas test_eval = Let_def test_def demo_net_def index_batches_def chunks.simps MData_len_def
  test_batch_def next_batch_def MData_getitem_def py_index_def collate_def channel_def
  tensor_add_def broadcast_def well_formed_def criterion_call_def cross_entropy_def update_def
  reset_def argmax_rows_def count_equal_def as_listed_def backwards_def upt_numeral

lemma test_demo_valid:
  "test demo_net as_listed (eval1\<lparr>training := t\<rparr>) demo_valid
     = Inr (eval1, 50, (ln (exp (1 / 2) + exp 1) + ln (exp (3 / 2) + exp 1) - 2) / 2)"
  by (simp add: test_eval demo_valid_def MData_init_def demo_adjust_def eval1_def)

lemma test_demo_both:
  "test demo_net as_listed eval1 demo_both
     = Inr (eval1, 100, (ln (exp (1 / 2) + exp 1) + ln (exp (3 / 2) + exp 1) - 5 / 2) / 2)"
  by (simp add: test_eval demo_both_def eval1_def)

lemma test_shuffled_as_listed:
  "test demo_net as_listed eval0 shuffled_three
     = Inr (eval0, 100, (ln 2 + 3 * (ln (exp 1 + 1) - 1)) / 4)"
  by (simp add: test_eval shuffled_three_def eval0_def field_simps)

lemma test_shuffled_backwards:
  "test demo_net backwards eval0 shuffled_three
     = Inr (eval0, 100, (ln 2 + (ln (exp 1 + 1) - 1)) / 2)"
  by (simp add: test_eval shuffled_three_def eval0_def field_simps)

lemma ln_e1: "ln (exp 1 + 1) \<noteq> ln 2 + (1::real)"
proof
  assume "ln (exp 1 + 1) = ln 2 + (1::real)"
  then have "exp (ln (exp 1 + 1)) = exp (ln 2 + (1::real))" by simp
  then have "exp 1 + 1 = 2 * exp (1::real)"
    by (simp add: exp_add add_pos_pos)
  then have "exp (1::real) = 1" by simp
  then show False by simp
qed

lemma demo_frozen: "frozen_in_eval demo_net"
  by (auto simp: frozen_in_eval_def demo_net_def)

lemma same_items_plain: "transformations d = Some None \<Longrightarrow> same_items d ps1 ps2"
  by (auto simp: same_items_def MData_getitem_def split: sum.splits)

lemma demo_both_heads:
  "heads demo_net (source demo_both) (entropy as_listed) 1 False [0, 1]
     = Inr (\<lparr>ncols = 2, rows = [[1 / 2, 1], [3 / 2, 1]]\<rparr>,
            \<lparr>ncols = 2, rows = [[1, 0], [- 1, 0]]\<rparr>, [0, 1], 1)"
  by (simp add: heads_def test_eval demo_both_def)

theorem test_returns_witness:
  "test demo_net as_listed eval1 demo_both
     = Inr (eval1, 100, (ln (exp (1 / 2) + exp 1) + ln (exp (3 / 2) + exp 1) - 5 / 2) / 2)
   \<and> 0 < bsize demo_both \<and> rearranges (sampler as_listed) demo_both
   \<and> frozen_in_eval demo_net
   \<and> (\<exists>r. evaluations demo_net (source demo_both) (entropy as_listed) 1 [[0, 1]] [r]
         \<and> first_head r = \<lparr>ncols = 2, rows = [[1 / 2, 1], [3 / 2, 1]]\<rparr>
         \<and> second_head r = \<lparr>ncols = 2, rows = [[1, 0], [- 1, 0]]\<rparr>
         \<and> labels r = [0, 1]
         \<and> hits (combined r) (labels r) = 2
         \<and> hits (first_head r) (labels r) = 0
         \<and> state_after r = 1)
   \<and> params eval1 = 1"
proof -
  have b: "0 < bsize demo_both" by (simp add: demo_both_def)
  have l: "MData_len (source demo_both) = 2"
    by (simp add: demo_both_def MData_len_def)
  have r: "rearranges (sampler as_listed) demo_both"
    by (auto simp: rearranges_def as_listed_def l upt_numeral)
  have ib: "index_batches (sampler as_listed) demo_both = [[0, 1]]"
    by (simp add: index_batches_def Let_def MData_len_def as_listed_def demo_both_def
        chunks.simps upt_numeral)
  have p: "params eval1 = 1" by (simp add: eval1_def)
  from test_returns [OF test_demo_both b r] obtain rs where
    ev: "evaluations demo_net (source demo_both) (entropy as_listed) 1 [[0, 1]] rs"
    and acc: "(100::real) = 100 * real (sum_list (map (\<lambda>r. hits (combined r) (labels r)) rs)) / 2"
    by (auto simp: l ib p)
  from ev obtain r where rs: "rs = [r]"
    and e: "evaluated demo_net (source demo_both) (entropy as_listed) 1 [0, 1] r"
    by (cases rs) auto
  from e [unfolded evaluated_def demo_both_heads]
  have h: "first_head r = \<lparr>ncols = 2, rows = [[1 / 2, 1], [3 / 2, 1]]\<rparr>"
    "second_head r = \<lparr>ncols = 2, rows = [[1, 0], [- 1, 0]]\<rparr>"
    "labels r = [0, 1]" "state_after r = 1"
    by simp_all
  from acc rs have n: "hits (combined r) (labels r) = 2" by simp
  have z: "hits \<lparr>ncols = 2, rows = [[1 / 2, 1], [3 / 2, 1]]\<rparr> [0, 1] = 0"
    by (simp add: hits_def is_argmax_def upt_numeral)
  from ev rs h n z have "evaluations demo_net (source demo_both) (entropy as_listed) 1 [[0, 1]] [r]
         \<and> first_head r = \<lparr>ncols = 2, rows = [[1 / 2, 1], [3 / 2, 1]]\<rparr>
         \<and> second_head r = \<lparr>ncols = 2, rows = [[1, 0], [- 1, 0]]\<rparr>
         \<and> labels r = [0, 1]
         \<and> hits (combined r) (labels r) = 2
         \<and> hits (first_head r) (labels r) = 0
         \<and> state_after r = 1"
    by simp
  then have "\<exists>r. evaluations demo_net (source demo_both) (entropy as_listed) 1 [[0, 1]] [r]
         \<and> first_head r = \<lparr>ncols = 2, rows = [[1 / 2, 1], [3 / 2, 1]]\<rparr>
         \<and> second_head r = \<lparr>ncols = 2, rows = [[1, 0], [- 1, 0]]\<rparr>
         \<and> labels r = [0, 1]
         \<and> hits (combined r) (labels r) = 2
         \<and> hits (first_head r) (labels r) = 0
         \<and> state_after r = 1"
    by (rule exI)
  with test_demo_both b r demo_frozen p show ?thesis by simp
qed

text \<open>
  C7, as stated, fails for a loader that shuffles: two passes draw two orders, the
  batches differ, and with them the mean of the losses of the batches. With three
  examples in batches of two, the pass in the listed order and the pass in the reverse
  order return the same accuracy and different losses.
\<close>

theorem test_shuffled_counterexample:
  "test demo_net as_listed eval0 shuffled_three
     = Inr (eval0, 100, (ln 2 + 3 * (ln (exp 1 + 1) - 1)) / 4)
   \<and> test demo_net backwards eval0 shuffled_three
     = Inr (eval0, 100, (ln 2 + (ln (exp 1 + 1) - 1)) / 2)
   \<and> (ln 2 + 3 * (ln (exp 1 + 1) - 1)) / 4 \<noteq> (ln 2 + (ln (exp 1 + 1) - 1)) / (2::real)"
  using ln_e1 by (simp add: test_shuffled_as_listed test_shuffled_backwards)

text \<open>
  Two passes that fetch the same items in the same batches do the same on the same
  model; and on a network that is frozen in evaluation mode the routine leaves the
  state it was given.
\<close>

lemma fetch_same: "same_items d ps1 ps2 \<Longrightarrow> fetch d (entropy ps2) is = fetch d (entropy ps1) is"
  by (induction "is") (simp_all add: same_items_def cong: sum.case_cong)

lemma test_batches_same:
  "same_items d ps1 ps2 \<Longrightarrow>
     test_batches ext d (entropy ps2) st bss = test_batches ext d (entropy ps1) st bss"
proof (induction bss arbitrary: st)
  case Nil
  then show ?case by simp
next
  case (Cons "is" bss)
  from fetch_same [OF Cons.prems]
  have "test_batch ext d (entropy ps2) st is = test_batch ext d (entropy ps1) st is"
    by (simp add: test_batch_def next_batch_def)
  with Cons.IH [OF Cons.prems] show ?case by (simp cong: sum.case_cong)
qed

lemma test_batches_frozen:
  "test_batches ext d rnd (m, mt, c) bss = Inr (m', mt', c') \<Longrightarrow> frozen_in_eval ext \<Longrightarrow>
     training m = False \<Longrightarrow> m' = m"
proof (induction bss arbitrary: mt c)
  case Nil
  then show ?case by simp
next
  case (Cons "is" bss)
  from Cons.prems(1) obtain m1 mt1 c1 where
    b: "test_batch ext d rnd (m, mt, c) is = Inr (m1, mt1, c1)"
    and rest: "test_batches ext d rnd (m1, mt1, c1) bss = Inr (m', mt', c')"
    by (auto split: sum.splits)
  from b Cons.prems(2,3) have "m1 = m"
    by (auto simp: test_batch_def frozen_in_eval_def split: sum.splits prod.splits)
  with Cons.IH rest Cons.prems(2,3) show ?case by simp
qed

lemma test_model:
  assumes "test ext ps m ldr = Inr (m1, r)" and "frozen_in_eval ext"
  shows "m1 = m\<lparr>training := False\<rparr>"
proof -
  from assms(1) obtain mt c where
    "test_batches ext (source ldr) (entropy ps) (m\<lparr>training := False\<rparr>, reset, 0)
       (index_batches (sampler ps) ldr) = Inr (m1, mt, c)"
    by (auto simp: test_def Let_def split: sum.splits if_splits)
  from test_batches_frozen [OF this assms(2)] show ?thesis by simp
qed

lemma test_again:
  assumes "test ext ps1 m ldr = Inr (m1, r)"
    and "shuffle ldr \<longrightarrow> sampler ps2 [0 ..< MData_len (source ldr)]
                          = sampler ps1 [0 ..< MData_len (source ldr)]"
    and "same_items (source ldr) ps1 ps2"
    and "params m2 = params m"
  shows "test ext ps2 m2 ldr = Inr (m1, r)"
proof -
  from assms(2) have b: "index_batches (sampler ps2) ldr = index_batches (sampler ps1) ldr"
    by (auto simp: index_batches_def Let_def)
  from assms(4) have eq: "m2\<lparr>training := False\<rparr> = m\<lparr>training := False\<rparr>" by simp
  have "test ext ps2 m2 ldr = test ext ps1 m ldr"
    unfolding test_def Let_def b test_batches_same [OF assms(3)] eq by (rule refl)
  with assms(1) show ?thesis by simp
qed

text \<open>
  C7, amended. For every model whose forward pass in evaluation mode leaves the state of
  the network as it is, and every data loader whose two passes visit the examples in
  the same order (every loader that does not shuffle, as the validation and test loaders
  of the training routine are built, and a shuffling loader when its sampler draws the
  same order twice) and fetch the same items (the transformations of the dataset, if
  random, come out the same), the evaluation routine run again on the model that its
  first run left returns the pair that the first run returned.
\<close>

theorem test_deterministic:
  assumes "test ext ps1 m ldr = Inr (m1, r)"
    and "frozen_in_eval ext"
    and "shuffle ldr \<longrightarrow> sampler ps2 [0 ..< MData_len (source ldr)]
                          = sampler ps1 [0 ..< MData_len (source ldr)]"
    and "same_items (source ldr) ps1 ps2"
  shows "test ext ps2 m1 ldr = Inr (m1, r)"
proof -
  from test_model [OF assms(1,2)] have "params m1 = params m" by simp
  from test_again [OF assms(1,3,4) this] show ?thesis .
qed

theorem test_deterministic_witness:
  "test demo_net as_listed eval1 demo_valid
     = Inr (eval1, 50, (ln (exp (1 / 2) + exp 1) + ln (exp (3 / 2) + exp 1) - 2) / 2)
   \<and> frozen_in_eval demo_net
   \<and> shuffle demo_valid = False
   \<and> same_items (source demo_valid) as_listed backwards
   \<and> test demo_net backwards eval1 demo_valid
     = Inr (eval1, 50, (ln (exp (1 / 2) + exp 1) + ln (exp (3 / 2) + exp 1) - 2) / 2)"
proof -
  have s: "shuffle demo_valid = False" by (simp add: demo_valid_def)
  then have h: "shuffle demo_valid \<longrightarrow>
      sampler backwards [0 ..< MData_len (source demo_valid)]
        = sampler as_listed [0 ..< MData_len (source demo_valid)]"
    by simp
  have e: "eval1\<lparr>training := False\<rparr> = eval1" by (simp add: eval1_def)
  have t: "test demo_net as_listed eval1 demo_valid
     = Inr (eval1, 50, (ln (exp (1 / 2) + exp 1) + ln (exp (3 / 2) + exp 1) - 2) / 2)"
    using test_demo_valid [of False] by (simp add: e)
  have i: "same_items (source demo_valid) as_listed backwards"
    by (rule same_items_plain) (simp add: demo_valid_def MData_init_def demo_adjust_def)
  from test_deterministic [OF t demo_frozen h i] s t i demo_frozen
  show ?thesis by simp
qed

section \<open>Properties of the training routine\<close>

text \<open>Files as a map from names to contents, under \<^verbatim>\<open>os.remove\<close> and \<^verbatim>\<open>torch.save\<close>.\<close>

lemma map_of_removed:
  "map_of (filter (\<lambda>kv. fst kv \<noteq> p) xs) f = (if f = p then None else map_of xs f)"
  by (induction xs) auto

lemma map_of_absent: "p \<notin> set (map fst xs) \<Longrightarrow> map_of xs p = None"
  by (simp add: map_of_eq_None_iff)

lemma map_of_replaced_other:
  "f \<noteq> p \<Longrightarrow> map_of (map (\<lambda>kv. if fst kv = p then (p, v) else kv) xs) f = map_of xs f"
  by (induction xs) auto

lemma map_of_replaced_same:
  "map_of xs p = Some c \<Longrightarrow>
     map_of (map (\<lambda>kv. if fst kv = p then (p, v) else kv) xs) p = Some v"
  by (induction xs) (auto split: if_splits)

lemma map_of_appended:
  "map_of xs p = None \<Longrightarrow>
     map_of (xs @ [(p, v)]) f = (if f = p then Some v else map_of xs f)"
  by (auto simp: map_add_def split: option.splits)

lemma map_of_save:
  assumes "save obj p w = Inr w'"
  shows "map_of (files w') f = (if f = p then Some (Pickled obj) else map_of (files w) f)"
proof (cases "map_of (files w) p")
  case None
  with assms have "files w' = files w @ [(p, Pickled obj)]"
    by (auto simp: save_def Let_def split: if_splits)
  with map_of_appended [OF None, of "Pickled obj" f] show ?thesis by simp
next
  case (Some c)
  with assms have "files w' = map (\<lambda>kv. if fst kv = p then (p, Pickled obj) else kv) (files w)"
    by (cases c) (auto simp: save_def Let_def)
  with map_of_replaced_same [OF Some, of "Pickled obj"]
    map_of_replaced_other [of f p "Pickled obj" "files w"]
  show ?thesis by auto
qed

lemma map_of_remove:
  "remove p w = Inr w' \<Longrightarrow> map_of (files w') f = (if f = p then None else map_of (files w) f)"
  by (auto simp: remove_def Let_def map_of_removed split: option.splits contents.splits)

lemma not_exists: "\<not> exists p w \<Longrightarrow> map_of (files w) p = None"
  by (simp add: exists_def map_of_absent del: set_map)

text \<open>What the checkpoint decision does when it does not raise.\<close>

lemma checkpoint_Inr:
  assumes "checkpoint ext sp ep va ta l w = (Inr l', w')"
  shows "if best_acc l \<le> va
         then l' = l\<lparr>best_acc := va, file_name := checkpoint_name ext sp ep ta\<rparr>
            \<and> map_of (files w')
                = (if file_name l \<noteq> [] then (map_of (files w))(file_name l := None)
                   else map_of (files w))
                  (checkpoint_name ext sp ep ta
                     \<mapsto> Pickled [(''model'', State_dict (params (model' l))),
                                  (''epoch'', Py_int ep)])
         else l' = l \<and> w' = w"
proof (cases "best_acc l \<le> va")
  case False
  with assms show ?thesis by (simp add: checkpoint_def)
next
  case True
  define obj where "obj = [(''model'', State_dict (params (model' l))), (''epoch'', Py_int ep)]"
  define fn where "fn = checkpoint_name ext sp ep ta"
  from assms True obtain w1 where
    rm: "(if file_name l \<noteq> [] \<and> exists (file_name l) w then remove (file_name l) w else Inr w)
           = Inr w1"
    and sv: "save obj fn w1 = Inr w'"
    and l': "l' = l\<lparr>best_acc := va, file_name := fn\<rparr>"
    by (auto simp: checkpoint_def Let_def obj_def fn_def split: sum.splits)
  have w1: "map_of (files w1)
      = (if file_name l \<noteq> [] then (map_of (files w))(file_name l := None) else map_of (files w))"
  proof (cases "file_name l \<noteq> [] \<and> exists (file_name l) w")
    case True
    with rm have "remove (file_name l) w = Inr w1" by simp
    from map_of_remove [OF this] True show ?thesis by auto
  next
    case False
    with rm have "w1 = w" by simp
    with False not_exists [of "file_name l" w] show ?thesis by auto
  qed
  from map_of_save [OF sv] have "map_of (files w') = (map_of (files w1))(fn \<mapsto> Pickled obj)"
    by auto
  with w1 l' True show ?thesis by (simp add: obj_def fn_def)
qed

lemma test_acc_nonneg: "test ext ps m ldr = Inr (m1, acc, ls) \<Longrightarrow> 0 \<le> acc"
  by (auto simp: test_def Let_def split: sum.splits if_splits)

text \<open>
  The batches of an epoch change the world only by the calls they record, and they
  leave the best accuracy and the name of the last checkpoint alone.
\<close>

lemma train_batch_frame:
  assumes "train_batch ext a d rnd crit (l, mt, c) is w = (r, w')"
  shows "\<exists>cs. w' = w\<lparr>calls := calls w @ cs\<rparr>
           \<and> (loss a \<noteq> ''cos'' \<longrightarrow> cs = [] \<or> cs = [tar l])
           \<and> (case r of Inl e \<Rightarrow> True
               | Inr (l', mt', c') \<Rightarrow>
                   best_acc l' = best_acc l \<and> file_name l' = file_name l
                   \<and> (loss a \<noteq> ''cos'' \<longrightarrow> tar l' = tar l))"
proof (cases "w' = w")
  case True
  with assms show ?thesis
    by (intro exI [of _ "[]"])
       (auto simp: train_batch_def Let_def split: sum.splits prod.splits)
next
  case False
  with assms show ?thesis
    by (intro exI [of _ "[if loss a = ''cos''
          then Some (map (\<lambda>t. 1) (snd (projr (next_batch d rnd is)))) else tar l]"])
       (auto simp: train_batch_def Let_def split: sum.splits prod.splits)
qed

lemma train_batches_frame:
  "train_batches ext a d rnd crit (l, mt, c) bss w = (r, w') \<Longrightarrow>
     \<exists>cs. w' = w\<lparr>calls := calls w @ cs\<rparr>
        \<and> (loss a \<noteq> ''cos'' \<longrightarrow> (\<forall>t \<in> set cs. t = tar l))
        \<and> (case r of Inl e \<Rightarrow> True
            | Inr (l', mt', c') \<Rightarrow>
                best_acc l' = best_acc l \<and> file_name l' = file_name l
                \<and> (loss a \<noteq> ''cos'' \<longrightarrow> tar l' = tar l))"
proof (induction bss arbitrary: l mt c w)
  case Nil
  then show ?case by (intro exI [of _ "[]"]) auto
next
  case (Cons "is" bss)
  obtain r1 w1 where b: "train_batch ext a d rnd crit (l, mt, c) is w = (r1, w1)"
    by (cases "train_batch ext a d rnd crit (l, mt, c) is w")
  from train_batch_frame [OF b] obtain cs1 where
    w1: "w1 = w\<lparr>calls := calls w @ cs1\<rparr>"
    and cs1: "loss a \<noteq> ''cos'' \<longrightarrow> cs1 = [] \<or> cs1 = [tar l]"
    and r1: "case r1 of Inl e \<Rightarrow> True
               | Inr (l', mt', c') \<Rightarrow>
                   best_acc l' = best_acc l \<and> file_name l' = file_name l
                   \<and> (loss a \<noteq> ''cos'' \<longrightarrow> tar l' = tar l)"
    by blast
  show ?case
  proof (cases r1)
    case (Inl e)
    with Cons.prems b have "r = Inl e" "w' = w1" by simp_all
    with w1 cs1 show ?thesis by (intro exI [of _ cs1]) auto
  next
    case (Inr st1)
    obtain l1 mt1 c1 where st1: "st1 = (l1, mt1, c1)" by (cases st1)
    with Cons.prems b Inr
    have rest: "train_batches ext a d rnd crit (l1, mt1, c1) bss w1 = (r, w')"
      by simp
    from Cons.IH [OF rest] obtain cs2 where
      w': "w' = w1\<lparr>calls := calls w1 @ cs2\<rparr>"
      and cs2: "loss a \<noteq> ''cos'' \<longrightarrow> (\<forall>t \<in> set cs2. t = tar l1)"
      and r: "case r of Inl e \<Rightarrow> True
               | Inr (l', mt', c') \<Rightarrow>
                   best_acc l' = best_acc l1 \<and> file_name l' = file_name l1
                   \<and> (loss a \<noteq> ''cos'' \<longrightarrow> tar l' = tar l1)"
      by blast
    from r1 Inr st1 have l1: "best_acc l1 = best_acc l" "file_name l1 = file_name l"
      "loss a \<noteq> ''cos'' \<longrightarrow> tar l1 = tar l"
      by simp_all
    show ?thesis
      by (intro exI [of _ "cs1 @ cs2"])
         (use w1 w' cs1 cs2 r l1 in \<open>auto split: sum.splits\<close>)
  qed
qed

text \<open>The checkpoint decision changes the files and their history only.\<close>

lemma checkpoint_frame:
  assumes "checkpoint ext sp ep va ta l w = (r, w')"
  shows "log w' = log w \<and> calls w' = calls w
         \<and> (case r of Inl e \<Rightarrow> True
             | Inr l' \<Rightarrow> tar l' = tar l \<and> model' l' = model' l \<and> optimizer l' = optimizer l)"
  using assms
  by (auto simp: checkpoint_def Let_def remove_def save_def
      split: if_splits sum.splits option.splits contents.splits)

text \<open>
  The decomposition of an epoch: the batches, the two evaluations, the checkpoint
  decision and the logged line.
\<close>

lemma train_epoch_cases:
  assumes "train_epoch ext ps a lg sp crit trl vll tel ep l w = (r, w')"
  obtains (batches_raise) e where
      "train_batches ext a (source trl) (entropy (ps ep ''train'')) crit
         (l\<lparr>model' := (model' l)\<lparr>training := True\<rparr>\<rparr>, reset, 0)
         (index_batches (sampler (ps ep ''train'')) trl) w = (Inl e, w')"
      "r = Inl e"
  | (later_raise) l2 mt c e w1 where
      "train_batches ext a (source trl) (entropy (ps ep ''train'')) crit
         (l\<lparr>model' := (model' l)\<lparr>training := True\<rparr>\<rparr>, reset, 0)
         (index_batches (sampler (ps ep ''train'')) trl) w = (Inr (l2, mt, c), w1)"
      "r = Inl e"
      "w' = w1 \<or> (\<exists>va ta m4. checkpoint ext sp ep va ta (l2\<lparr>model' := m4\<rparr>) w1 = (Inl e, w'))"
  | (completes) l2 mt c w1 m3 va vl m4 ta tl l3 w2 where
      "train_batches ext a (source trl) (entropy (ps ep ''train'')) crit
         (l\<lparr>model' := (model' l)\<lparr>training := True\<rparr>\<rparr>, reset, 0)
         (index_batches (sampler (ps ep ''train'')) trl) w = (Inr (l2, mt, c), w1)"
      "0 < MData_len (source trl)"
      "test ext (ps ep ''valid'') (model' l2) vll = Inr (m3, va, vl)"
      "test ext (ps ep ''test'') m3 tel = Inr (m4, ta, tl)"
      "checkpoint ext sp ep va ta (l2\<lparr>model' := m4\<rparr>) w1 = (Inr l3, w2)"
      "r = Inr l3"
      "w' = logger_info lg
             (Epoch_info ep (avg mt) (100 * real c / real (MData_len (source trl))) va vl ta tl) w2"
proof -
  obtain rb w1 where b: "train_batches ext a (source trl) (entropy (ps ep ''train'')) crit
         (l\<lparr>model' := (model' l)\<lparr>training := True\<rparr>\<rparr>, reset, 0)
         (index_batches (sampler (ps ep ''train'')) trl) w = (rb, w1)"
    by (cases "train_batches ext a (source trl) (entropy (ps ep ''train'')) crit
         (l\<lparr>model' := (model' l)\<lparr>training := True\<rparr>\<rparr>, reset, 0)
         (index_batches (sampler (ps ep ''train'')) trl) w")
  show thesis
  proof (cases rb)
    case (Inl e)
    with assms b show thesis
      by (intro batches_raise [of e]) (auto simp: train_epoch_def)
  next
    case (Inr st)
    obtain l2 mt c where st: "st = (l2, mt, c)" by (cases st)
    note b' = b [unfolded Inr st]
    show thesis
    proof (cases "MData_len (source trl) = 0")
      case True
      with assms b' show thesis
        by (intro later_raise [of l2 mt c w1 ZeroDivisionError])
           (auto simp: train_epoch_def)
    next
      case len: False
      show thesis
      proof (cases "test ext (ps ep ''valid'') (model' l2) vll")
        case (Inl e)
        with assms b' len show thesis
          by (intro later_raise [of l2 mt c w1 e]) (auto simp: train_epoch_def Let_def)
      next
        case v: (Inr rv)
        obtain m3 va vl where rv: "rv = (m3, va, vl)" by (cases rv)
        show thesis
        proof (cases "test ext (ps ep ''test'') m3 tel")
          case (Inl e)
          with assms b' len v rv show thesis
            by (intro later_raise [of l2 mt c w1 e]) (auto simp: train_epoch_def Let_def)
        next
          case t: (Inr rt)
          obtain m4 ta tl where rt: "rt = (m4, ta, tl)" by (cases rt)
          obtain rc w2 where ck: "checkpoint ext sp ep va ta (l2\<lparr>model' := m4\<rparr>) w1 = (rc, w2)"
            by (cases "checkpoint ext sp ep va ta (l2\<lparr>model' := m4\<rparr>) w1")
          show thesis
          proof (cases rc)
            case (Inl e)
            with assms b' len v rv t rt ck show thesis
              by (intro later_raise [of l2 mt c w1 e])
                 (auto simp: train_epoch_def Let_def)
          next
            case (Inr l3)
            with assms b' len v rv t rt ck show thesis
              by (intro completes [of l2 mt c w1 m3 va vl m4 ta tl l3 w2])
                 (auto simp: train_epoch_def Let_def)
          qed
        qed
      qed
    qed
  qed
qed

text \<open>What \<^verbatim>\<open>train\<close> does before its first epoch, when it gets that far.\<close>

lemma train_cases:
  assumes "train ext ps lg m ds a sp se w = (r, w')"
  obtains (no_loader) e where "r = Inl e" "w' = w"
  | (epochs) trl vll tel where
      "loader_of ds a ''train'' True = Inr trl"
      "loader_of ds a ''valid'' False = Inr vll"
      "loader_of ds a ''test'' False = Inr tel"
      "train_epochs ext ps a lg sp (MutiLoss ext (loss a) (weight a) (loss_weight a))
         trl vll tel [se .. epoch a - 1]
         \<lparr>model' = m, optimizer = Adam ext (params m), tar = None, best_acc = 0, file_name = []\<rparr>
         (logger_info lg Weight_mode w) = (r, w')"
  using assms by (auto simp: train_def split: sum.splits)

text \<open>With a loss mode other than \<^verbatim>\<open>cos\<close> the auxiliary target stays \<^verbatim>\<open>None\<close>.\<close>

lemma none_calls:
  "(\<forall>t \<in> set cs. t = None) \<Longrightarrow> cs = replicate (length cs) None"
  by (simp add: replicate_length_same)

lemma train_epoch_calls:
  assumes "train_epoch ext ps a lg sp crit trl vll tel ep l w = (r, w')"
    and "loss a \<noteq> ''cos''" and "tar l = None"
  shows "(\<exists>k. calls w' = calls w @ replicate k None)
         \<and> (case r of Inl e \<Rightarrow> True | Inr l' \<Rightarrow> tar l' = None)"
  using assms(1)
proof (cases rule: train_epoch_cases)
  case (batches_raise e)
  from train_batches_frame [OF batches_raise(1)] assms(2,3) obtain cs where
    "w' = w\<lparr>calls := calls w @ cs\<rparr>" "\<forall>t \<in> set cs. t = None"
    by auto
  with none_calls [of cs] batches_raise(2) show ?thesis
    by (auto intro: exI [of _ "length cs"])
next
  case (later_raise l2 mt c e w1)
  from train_batches_frame [OF later_raise(1)] assms(2,3) obtain cs where
    w1: "w1 = w\<lparr>calls := calls w @ cs\<rparr>" and cs: "\<forall>t \<in> set cs. t = None"
    by auto
  from later_raise(3) have "calls w' = calls w1"
    by (auto dest: checkpoint_frame)
  with w1 cs none_calls [of cs] later_raise(2) show ?thesis
    by (auto intro: exI [of _ "length cs"])
next
  case (completes l2 mt c w1 m3 va vl m4 ta tl l3 w2)
  from train_batches_frame [OF completes(1)] assms(2,3) obtain cs where
    w1: "w1 = w\<lparr>calls := calls w @ cs\<rparr>" and cs: "\<forall>t \<in> set cs. t = None"
    and l2: "tar l2 = None"
    by auto
  from checkpoint_frame [OF completes(5)] l2
  have "calls w2 = calls w1" "tar l3 = None" by simp_all
  with w1 cs none_calls [of cs] completes(6,7) show ?thesis
    by (auto simp: logger_info_def intro: exI [of _ "length cs"])
qed

lemma train_epochs_calls:
  "train_epochs ext ps a lg sp crit trl vll tel eps l w = (r, w') \<Longrightarrow>
     loss a \<noteq> ''cos'' \<Longrightarrow> tar l = None \<Longrightarrow> \<exists>k. calls w' = calls w @ replicate k None"
proof (induction eps arbitrary: l w)
  case Nil
  then show ?case by (auto intro: exI [of _ 0])
next
  case (Cons ep eps)
  obtain r1 w1 where e: "train_epoch ext ps a lg sp crit trl vll tel ep l w = (r1, w1)"
    by (cases "train_epoch ext ps a lg sp crit trl vll tel ep l w")
  from train_epoch_calls [OF e Cons.prems(2,3)] obtain k where
    k: "calls w1 = calls w @ replicate k None"
    and r1: "case r1 of Inl e \<Rightarrow> True | Inr l' \<Rightarrow> tar l' = None"
    by blast
  show ?case
  proof (cases r1)
    case (Inl err)
    with Cons.prems(1) e k show ?thesis by auto
  next
    case (Inr l1)
    with Cons.prems(1) e have "train_epochs ext ps a lg sp crit trl vll tel eps l1 w1 = (r, w')"
      by simp
    from Cons.IH [OF this Cons.prems(2)] r1 Inr obtain j where
      "calls w' = calls w1 @ replicate j None" by auto
    with k have "calls w' = calls w @ replicate (k + j) None"
      by (simp add: replicate_add)
    then show ?thesis by blast
  qed
qed

text \<open>
  C10. In a training run whose loss mode is not \<^verbatim>\<open>cos\<close>, every call of the composite
  criterion gets \<^verbatim>\<open>None\<close> as its auxiliary target: the calls that the run adds to the
  record of calls are all \<open>None\<close>, whether the run completes or raises.
\<close>

theorem train_tar_None:
  assumes "train ext ps lg m ds a sp se w = (r, w')" and "loss a \<noteq> ''cos''"
  shows "\<exists>k. calls w' = calls w @ replicate k None"
  using assms(1)
proof (cases rule: train_cases)
  case (no_loader e)
  then show ?thesis by (auto intro: exI [of _ 0])
next
  case (epochs trl vll tel)
  from train_epochs_calls [OF epochs(4) assms(2)] show ?thesis
    by (simp add: logger_info_def)
qed

text \<open>The example run: two epochs in the empty run directory.\<close>

lemma replicate_numeral: "replicate (numeral k) x = x # replicate (pred_numeral k) x"
  by (simp add: numeral_eq_Suc)

lemmas train_eval = test_eval train_def loader_of_def train_batch_def checkpoint_def
  checkpoint_name_def train_epoch_def dict_get_def DataLoader_def get_dataset_def demo_data_def
  demo_adjust_def MData_init_def demo_args_def demo_passes_def train0_def eval1_def
  fresh_dir_def demo_logger_def logger_info_def exists_def remove_def save_def
  parent_exists_def is_dir_def dirname_def basename_def str_int_def str_nat.simps
  decimal_4f_def pad4_def digit_char_def upto.simps locals0_def world0_def locals1_def
  world1_def replicate_numeral

lemma demo_run:
  "train demo_net demo_passes demo_logger train0 demo_data demo_args ''d'' 0 fresh_dir
     = (Inr locals1, world1)"
  by (simp add: train_eval)

lemma mse_calls:
  "calls (snd (train demo_net demo_passes demo_logger train0 demo_data
        (demo_args\<lparr>loss := ''mse''\<rparr>) ''d'' 0 fresh_dir)) = [None, None]"
  by (simp add: train_eval)

theorem train_tar_None_witness:
  "loss (demo_args\<lparr>loss := ''mse''\<rparr>) \<noteq> ''cos''
   \<and> calls (snd (train demo_net demo_passes demo_logger train0 demo_data
        (demo_args\<lparr>loss := ''mse''\<rparr>) ''d'' 0 fresh_dir)) = [] @ replicate 2 None"
proof -
  have l: "loss (demo_args\<lparr>loss := ''mse''\<rparr>) \<noteq> ''cos''" by simp
  have p: "train demo_net demo_passes demo_logger train0 demo_data
        (demo_args\<lparr>loss := ''mse''\<rparr>) ''d'' 0 fresh_dir
      = (fst (train demo_net demo_passes demo_logger train0 demo_data
            (demo_args\<lparr>loss := ''mse''\<rparr>) ''d'' 0 fresh_dir :: (error + (nat, nat) locals) \<times> nat world),
         snd (train demo_net demo_passes demo_logger train0 demo_data
            (demo_args\<lparr>loss := ''mse''\<rparr>) ''d'' 0 fresh_dir))"
    by simp
  from train_tar_None [OF p l] mse_calls l show ?thesis
    by (simp add: numeral_2_eq_2)
qed

text \<open>
  An epoch that completes logs its line, and does to the best accuracy, the recorded
  name and the files what the checkpoint policy says for its outcome.
\<close>

lemma epoch_lines_append:
  "epoch_lines (xs @ [(pth, nm, Epoch_info e trl tra va vl tea tel)])
     = epoch_lines xs @ [(e, va, tea)]"
  by (simp add: epoch_lines_def)

lemma epoch_lines_other:
  "epoch_lines (xs @ [(pth, nm, Weight_mode)]) = epoch_lines xs"
  by (simp add: epoch_lines_def)

lemma train_epoch_policy:
  assumes "train_epoch ext ps a lg sp crit trl vll tel ep l w = (Inr l', w')"
  shows "\<exists>x. epoch_no x = ep
           \<and> epoch_lines (log w') = epoch_lines (log w) @ [shown x]
           \<and> measured ext ps vll tel x
           \<and> 0 \<le> valid_accuracy x
           \<and> (best_acc l', file_name l', map_of (files w'))
               = spec_checkpoint (format_4f ext) sp (best_acc l, file_name l, map_of (files w)) x"
  using assms
proof (cases rule: train_epoch_cases)
  case (batches_raise e)
  then show ?thesis by simp
next
  case (later_raise l2 mt c e w1)
  then show ?thesis by simp
next
  case (completes l2 mt c w1 m3 va vl m4 ta tl l3 w2)
  define x where "x = \<lparr>epoch_no = ep, valid_accuracy = va, test_accuracy = ta,
                        final_state = params m4\<rparr>"
  from train_batches_frame [OF completes(1)] have
    w1: "files w1 = files w" "log w1 = log w"
    and l2: "best_acc l2 = best_acc l" "file_name l2 = file_name l"
    by auto
  from checkpoint_frame [OF completes(5)] have lg2: "log w2 = log w1"
    by simp
  from completes(7) lg2 w1 have
    lines: "epoch_lines (log w') = epoch_lines (log w) @ [shown x]"
    and fw: "files w' = files w2"
    by (simp_all add: logger_info_def epoch_lines_append shown_def x_def)
  from completes(3,4) have ms: "measured ext ps vll tel x"
    by (auto simp: measured_def x_def)
  have "(best_acc l3, file_name l3, map_of (files w2))
      = spec_checkpoint (format_4f ext) sp (best_acc l, file_name l, map_of (files w)) x"
  proof (cases "best_acc l \<le> va")
    case True
    with checkpoint_Inr [OF completes(5)] show ?thesis
      by (simp add: l2 w1 spec_checkpoint_def checkpoint_name_def x_def)
  next
    case False
    with checkpoint_Inr [OF completes(5)] show ?thesis
      by (simp add: l2 w1 spec_checkpoint_def x_def)
  qed
  with lines ms fw completes(6) test_acc_nonneg [OF completes(3)] show ?thesis
    by (intro exI [of _ x]) (simp add: x_def)
qed

lemma train_epochs_policy:
  "train_epochs ext ps a lg sp crit trl vll tel eps l w = (Inr l', w') \<Longrightarrow>
     \<exists>xs. map epoch_no xs = eps
        \<and> epoch_lines (log w') = epoch_lines (log w) @ map shown xs
        \<and> list_all (measured ext ps vll tel) xs
        \<and> list_all (\<lambda>x. 0 \<le> valid_accuracy x) xs
        \<and> (best_acc l', file_name l', map_of (files w'))
            = spec_checkpoints (format_4f ext) sp xs (best_acc l, file_name l, map_of (files w))"
proof (induction eps arbitrary: l w)
  case Nil
  then show ?case by (intro exI [of _ "[]"]) (simp add: spec_checkpoints_def)
next
  case (Cons ep eps)
  from Cons.prems obtain l1 w1 where
    e: "train_epoch ext ps a lg sp crit trl vll tel ep l w = (Inr l1, w1)"
    and rest: "train_epochs ext ps a lg sp crit trl vll tel eps l1 w1 = (Inr l', w')"
    by (auto split: prod.splits sum.splits)
  from train_epoch_policy [OF e] obtain x where
    x: "epoch_no x = ep"
    and l1: "epoch_lines (log w1) = epoch_lines (log w) @ [shown x]"
    and m1: "measured ext ps vll tel x"
    and v1: "0 \<le> valid_accuracy x"
    and s1: "(best_acc l1, file_name l1, map_of (files w1))
               = spec_checkpoint (format_4f ext) sp (best_acc l, file_name l, map_of (files w)) x"
    by blast
  from Cons.IH [OF rest] obtain xs where
    xs: "map epoch_no xs = eps"
    and ls: "epoch_lines (log w') = epoch_lines (log w1) @ map shown xs"
    and ms: "list_all (measured ext ps vll tel) xs"
    and vs: "list_all (\<lambda>x. 0 \<le> valid_accuracy x) xs"
    and ss: "(best_acc l', file_name l', map_of (files w'))
               = spec_checkpoints (format_4f ext) sp xs (best_acc l1, file_name l1, map_of (files w1))"
    by blast
  show ?case
    by (rule exI [of _ "x # xs"])
       (use x xs ls ms vs ss l1 m1 v1 s1 in \<open>simp add: spec_checkpoints_def\<close>)
qed

text \<open>
  What the policy leaves after a run of epochs: the greatest validation accuracy, and a
  recorded name once an epoch has reached the best so far.
\<close>

lemma spec_checkpoints_Cons:
  "spec_checkpoints fmt sp (x # xs) s = spec_checkpoints fmt sp xs (spec_checkpoint fmt sp s x)"
  by (simp add: spec_checkpoints_def)

lemma Max_insert_max:
  "finite S \<Longrightarrow> Max (insert (b::real) (insert v S)) = Max (insert (max b v) S)"
  by (cases "S = {}") (simp_all add: max.assoc)

lemma spec_checkpoints_best:
  "fst (spec_checkpoints fmt sp xs (b, prev, fm)) = Max (insert b (valid_accuracy ` set xs))"
proof (induction xs arbitrary: b prev fm)
  case Nil
  then show ?case by (simp add: spec_checkpoints_def)
next
  case (Cons x xs)
  obtain prev' fm' where
    s: "spec_checkpoint fmt sp (b, prev, fm) x = (max b (valid_accuracy x), prev', fm')"
    by (cases "b \<le> valid_accuracy x") (simp_all add: spec_checkpoint_def max_def)
  have "fst (spec_checkpoints fmt sp (x # xs) (b, prev, fm))
      = Max (insert (max b (valid_accuracy x)) (valid_accuracy ` set xs))"
    unfolding spec_checkpoints_Cons s by (rule Cons.IH)
  also have "\<dots> = Max (insert b (insert (valid_accuracy x) (valid_accuracy ` set xs)))"
    by (rule Max_insert_max [symmetric]) simp
  finally show ?case by simp
qed

lemma spec_checkpoints_named:
  "prev \<noteq> [] \<or> (xs \<noteq> [] \<and> b \<le> valid_accuracy (hd xs)) \<Longrightarrow>
     fst (snd (spec_checkpoints fmt sp xs (b, prev, fm))) \<noteq> []"
proof (induction xs arbitrary: b prev fm)
  case Nil
  then show ?case by (simp add: spec_checkpoints_def)
next
  case (Cons x xs)
  obtain b' prev' fm' where s: "spec_checkpoint fmt sp (b, prev, fm) x = (b', prev', fm')"
    by (cases "spec_checkpoint fmt sp (b, prev, fm) x")
  with Cons.prems have "prev' \<noteq> []"
    by (auto simp: spec_checkpoint_def split: if_splits)
  then have "fst (snd (spec_checkpoints fmt sp xs (b', prev', fm'))) \<noteq> []"
    by (intro Cons.IH) simp
  with s show ?case
    by (simp add: spec_checkpoints_Cons)
qed

text \<open>
  C3. A training run that completes has run the epochs from the start epoch to the last
  one, in order, and has logged for each its validation accuracy and its test accuracy
  as the evaluation routine returned them on the validation loader and on the test
  loader; no validation accuracy is negative. What the run leaves is what the
  checkpoint policy (\<open>spec_checkpoint\<close>) makes, epoch by epoch, of the best accuracy 0,
  no recorded name and the files the run found: an epoch saves exactly when its
  validation accuracy is at least the best so far; it then becomes the best, the file
  recorded before is deleted, and the file
  \<^verbatim>\<open>'{save_path}/{epoch}-{test_acc:.4f}.pt'\<close> is written with the state of the network
  and the epoch. So the best accuracy at the end is the greatest validation accuracy of
  the run, and the first epoch saves: a run of at least one epoch has a recorded name.
\<close>

theorem train_checkpoints:
  assumes "train ext ps lg m ds a sp se w = (Inr l, w')"
  shows "\<exists>vll tel xs.
      loader_of ds a ''valid'' False = Inr vll \<and> loader_of ds a ''test'' False = Inr tel
    \<and> map epoch_no xs = [se .. epoch a - 1]
    \<and> epoch_lines (log w') = epoch_lines (log w) @ map shown xs
    \<and> list_all (measured ext ps vll tel) xs
    \<and> list_all (\<lambda>x. 0 \<le> valid_accuracy x) xs
    \<and> (best_acc l, file_name l, map_of (files w'))
        = spec_checkpoints (format_4f ext) sp xs (0, [], map_of (files w))
    \<and> best_acc l = Max (insert 0 (valid_accuracy ` set xs))
    \<and> (xs \<noteq> [] \<longrightarrow> file_name l \<noteq> [])"
  using assms
proof (cases rule: train_cases)
  case (no_loader e)
  then show ?thesis by simp
next
  case (epochs trl vll tel)
  from train_epochs_policy [OF epochs(4)] obtain xs where
    xs: "map epoch_no xs = [se .. epoch a - 1]"
    and ls: "epoch_lines (log w') = epoch_lines (log w) @ map shown xs"
    and ms: "list_all (measured ext ps vll tel) xs"
    and vs: "list_all (\<lambda>x. 0 \<le> valid_accuracy x) xs"
    and ss: "(best_acc l, file_name l, map_of (files w'))
               = spec_checkpoints (format_4f ext) sp xs (0, [], map_of (files w))"
    by (auto simp: logger_info_def epoch_lines_other)
  from ss spec_checkpoints_best [of "format_4f ext" sp xs 0 "[]" "map_of (files w)"]
  have best: "best_acc l = Max (insert 0 (valid_accuracy ` set xs))"
    by (metis fst_conv)
  have named: "xs \<noteq> [] \<longrightarrow> file_name l \<noteq> []"
  proof
    assume ne: "xs \<noteq> []"
    with vs have "0 \<le> valid_accuracy (hd xs)"
      by (cases xs) auto
    with ne have "fst (snd (spec_checkpoints (format_4f ext) sp xs (0, [], map_of (files w)))) \<noteq> []"
      by (intro spec_checkpoints_named) simp
    with ss show "file_name l \<noteq> []" by (metis fst_conv snd_conv)
  qed
  from epochs(2,3) xs ls ms vs ss best named show ?thesis by blast
qed

theorem train_checkpoints_witness:
  "train demo_net demo_passes demo_logger train0 demo_data demo_args ''d'' 0 fresh_dir
     = (Inr locals1, world1)
   \<and> (\<exists>xs. map shown xs = [(0, 50, 100), (1, 100, 50)]
         \<and> (best_acc locals1, file_name locals1, map_of (files world1))
             = spec_checkpoints decimal_4f ''d'' xs (0, [], map_of (files fresh_dir)))
   \<and> best_acc locals1 = 100 \<and> file_name locals1 = ''d/1-50.0000.pt''
   \<and> map_of (files world1) ''d/0-100.0000.pt'' = None
   \<and> map_of (files world1) ''d/1-50.0000.pt''
       = Some (Pickled [(''model'', State_dict 2), (''epoch'', Py_int 1)])"
proof -
  have l0: "epoch_lines (log fresh_dir) = []"
    by (simp add: fresh_dir_def epoch_lines_def)
  have l1: "epoch_lines (log world1) = [(0, 50, 100), (1, 100, 50)]"
    by (simp add: world1_def epoch_lines_def)
  have f: "format_4f demo_net = decimal_4f" by (simp add: demo_net_def)
  from train_checkpoints [OF demo_run] obtain xs where
    "epoch_lines (log world1) = epoch_lines (log fresh_dir) @ map shown xs"
    "(best_acc locals1, file_name locals1, map_of (files world1))
       = spec_checkpoints (format_4f demo_net) ''d'' xs (0, [], map_of (files fresh_dir))"
    by blast
  then have "map shown xs = [(0, 50, 100), (1, 100, 50)]
         \<and> (best_acc locals1, file_name locals1, map_of (files world1))
             = spec_checkpoints decimal_4f ''d'' xs (0, [], map_of (files fresh_dir))"
    by (simp add: l0 l1 f)
  then have "\<exists>xs. map shown xs = [(0, 50, 100), (1, 100, 50)]
         \<and> (best_acc locals1, file_name locals1, map_of (files world1))
             = spec_checkpoints decimal_4f ''d'' xs (0, [], map_of (files fresh_dir))"
    by (rule exI)
  moreover have "best_acc locals1 = 100" "file_name locals1 = ''d/1-50.0000.pt''"
    by (simp_all add: locals1_def)
  moreover have "map_of (files world1) ''d/0-100.0000.pt'' = None"
    "map_of (files world1) ''d/1-50.0000.pt''
       = Some (Pickled [(''model'', State_dict 2), (''epoch'', Py_int 1)])"
    by (simp_all add: world1_def)
  ultimately show ?thesis using demo_run by simp
qed

end
